theory Spec2Isabelle
  imports Complex_Main "HOL-Library.AList"
begin

section \<open>Data model (src/app/types/types.ts)\<close>

text \<open>
  A JavaScript object used as a dictionary is a plain object (its prototype is
  \<open>Object.prototype\<close>), given by the association list of its own properties in enumeration
  order, with pairwise distinct keys. A \<open>for ... in\<close> loop runs over the list from left to
  right, and reading the loop's key gives the paired value. The numeric-key ordering rule
  is not modelled. A \<open>number\<close> is an \<open>int\<close>: the spec's data model makes attributes,
  quantities and levels integers. Field names that are Isabelle keywords or that two
  interfaces share carry a suffix.
\<close>

type_synonym 'v obj = "(string \<times> 'v) list"

text \<open>
  The property names of \<open>Object.prototype\<close> (ECMAScript 20.1.3 and Annex B.2.2). All of
  them hold functions, except the accessor \<open>__proto__\<close>, whose getter returns the
  prototype object; every one of these values is truthy and none is a number.
\<close>

definition objectPrototypeKeys :: "string list" where
  "objectPrototypeKeys =
     [''constructor'', ''hasOwnProperty'', ''isPrototypeOf'', ''propertyIsEnumerable'',
      ''toLocaleString'', ''toString'', ''valueOf'', ''__defineGetter__'',
      ''__defineSetter__'', ''__lookupGetter__'', ''__lookupSetter__'', ''__proto__'']"

text \<open>
  \<open>o[k]\<close> read with a key that is not known to be an own property: the own value, else
  the inherited member when \<open>k\<close> names one, else \<open>undefined\<close>.
\<close>

datatype 'v lookup = Own 'v | Inherited | Undefined

definition getProp :: "'v obj \<Rightarrow> string \<Rightarrow> 'v lookup" where
  "getProp m k =
     (case map_of m k of
        Some v \<Rightarrow> Own v
      | None \<Rightarrow> if k \<in> set objectPrototypeKeys then Inherited else Undefined)"

text \<open>
  \<open>o[k] = v\<close>: an own property is overwritten in place and a new one is appended, except
  that writing to a missing \<open>__proto__\<close> goes to the inherited setter, which ignores a
  number, a string and a boolean and creates no property.
\<close>

definition setProp :: "'v obj \<Rightarrow> string \<Rightarrow> 'v \<Rightarrow> 'v obj" where
  "setProp m k v =
     (if k = ''__proto__'' \<and> map_of m k = None then m else AList.update k v m)"

text \<open>
  The value of an attribute at run time: a number or, once an inherited member has been
  read where a number was expected, something that is not a number (the member itself, or
  the string that \<open>member + number\<close> gives; such a string is never empty and never a
  numeral).
\<close>

datatype aval = Num int | NotNumber

text \<open>\<open>x + n\<close> for a number \<open>n\<close>: addition on a number, string concatenation otherwise.\<close>

definition plusNumber :: "aval \<Rightarrow> int \<Rightarrow> aval" where
  "plusNumber x n = (case x of Num v \<Rightarrow> Num (v + n) | NotNumber \<Rightarrow> NotNumber)"

record PlayerCustomizationContentItem =
  description_i :: string
  attributeBonus :: "int obj"

record PlayerCustomizationCategory =
  description_c :: string
  content :: "PlayerCustomizationContentItem obj"

record BaseSkill =
  attribute_b :: string
  description_b :: string

record DndScenario =
  id_s :: string
  Dnd_Scenario :: string
  attributes :: "string obj"
  baseSkills :: "BaseSkill obj"
  startingPoint :: string
  playerCustomizations :: "PlayerCustomizationCategory obj"

record InventoryItem =
  item :: string
  quantity :: int

record PlayerSkill =
  skillName :: string
  level :: "int option"
  description :: "string option"

datatype role = User | Dm

record DialogueEntry =
  role :: role
  text_d :: string
  timestamp :: string

text \<open>
  The values of a story flag (\<open>any\<close> in the source, parsed from JSON), as far as they are
  booleans, numbers or strings; \<open>null\<close>, arrays and objects as flag values are left out.
\<close>

datatype jsval = JBool bool | JNum int | JStr string

record GameState =
  scenarioId :: string
  scenarioName :: string
  baseAttributes :: "aval obj"
  selectedCustomizations :: "string obj"
  currentLocation :: string
  playerCharacterName :: "string option"
  inventory :: "InventoryItem list"
  playerSkills :: "PlayerSkill list"
  gameProgression :: "jsval obj"
  dialogueHistory :: "DialogueEntry list"

record GameTableRow =
  user_id :: string
  scenario_id :: string
  name :: string
  state :: GameState
  created_at :: string
  updated_at :: string
  is_active :: bool

record ItemChange =
  item_c :: string
  quantityChange :: int

record AttributeChange =
  attribute :: string
  valueChange :: int

datatype skillChangeType = Learn | Forget | Improve | Deteriorate

record SkillChange =
  skillName_c :: string
  type_c :: skillChangeType
  value_c :: "int option"

record StoryFlag =
  flag :: string
  value_f :: jsval

text \<open>
  \<open>Partial<ParsedUserAction | DMResponseContent>\<close>: every field the applier reads, each
  optional (\<open>None\<close> when the key is missing). \<open>requestedAction\<close>, \<open>actionType\<close>, \<open>target\<close>
  and \<open>narrative\<close> are never read by the code below and are left out.
\<close>

record Changes =
  itemChanges :: "ItemChange list option"
  attributeChanges :: "AttributeChange list option"
  skillChanges :: "SkillChange list option"
  locationUpdate :: "string option"
  storyFlags :: "StoryFlag list option"
  requiresDiceRoll :: "bool option"
  relevantAttribute :: "string option"
  difficultyClass :: "int option"

text \<open>The object \<open>{}\<close> read as a delta.\<close>

definition emptyChanges :: Changes where
  "emptyChanges = \<lparr>itemChanges = None, attributeChanges = None, skillChanges = None,
     locationUpdate = None, storyFlags = None, requiresDiceRoll = None,
     relevantAttribute = None, difficultyClass = None\<rparr>"

section \<open>Array helpers\<close>

text \<open>\<open>Array.prototype.findIndex\<close>: the first index whose element passes, \<open>None\<close> for \<open>-1\<close>.\<close>

fun findIndex :: "('a \<Rightarrow> bool) \<Rightarrow> 'a list \<Rightarrow> nat option" where
  "findIndex P [] = None"
| "findIndex P (x # xs) = (if P x then Some 0 else map_option Suc (findIndex P xs))"

text \<open>\<open>xs.splice(i, 1)\<close> for an index inside the array.\<close>

definition splice1 :: "nat \<Rightarrow> 'a list \<Rightarrow> 'a list" where
  "splice1 i xs = take i xs @ drop (Suc i) xs"

text \<open>\<open>x || d\<close> on an optional number: \<open>undefined\<close> and \<open>0\<close> are both falsy.\<close>

definition orElse :: "int option \<Rightarrow> int \<Rightarrow> int" where
  "orElse x d = (case x of None \<Rightarrow> d | Some v \<Rightarrow> if v = 0 then d else v)"

section \<open>The state delta applier (\<open>applyGameStateChanges\<close>)\<close>

text \<open>
  \<open>Math.random()\<close> is a parameter \<open>u\<close> of the model, a real in \<open>[0, 1)\<close>;
  \<open>rollD20\<close> is \<open>Math.floor(Math.random() * 20) + 1\<close>.
\<close>

definition rollD20 :: "real \<Rightarrow> int" where
  "rollD20 u = \<lfloor>u * 20\<rfloor> + 1"

text \<open>
  The returned \<open>narrativeContextPart\<close> is built from template literals. It is modelled by
  its structure: one \<open>summaryNote\<close> per template the applier appends, holding the values that the
  template interpolates. Rendering to characters (\<open>JSON.stringify\<close>, the fixed wording) is
  not modelled. \<open>CheckNote a dc roll v ok\<close> is the skill-check sentence: attribute, DC, die,
  the value read for the attribute and the success flag.
\<close>

datatype summaryNote =
    ItemsNote "ItemChange list"
  | AttributesNote "AttributeChange list"
  | SkillsNote "SkillChange list"
  | LocationNote string
  | FlagsNote "StoryFlag list"
  | CheckNote string int int aval bool

text \<open>One iteration of the item loop (source lines 40-56).\<close>

definition applyItemChange :: "InventoryItem list \<Rightarrow> ItemChange \<Rightarrow> InventoryItem list" where
  "applyItemChange items change =
     (case findIndex (\<lambda>i. item i = item_c change) items of
        Some existingItemIndex \<Rightarrow>
          (let items' = items[existingItemIndex :=
                 (items ! existingItemIndex)\<lparr>quantity :=
                    quantity (items ! existingItemIndex) + quantityChange change\<rparr>]
           in if quantity (items' ! existingItemIndex) \<le> 0
              then splice1 existingItemIndex items' else items')
      | None \<Rightarrow>
          if quantityChange change > 0
          then items @ [\<lparr>item = item_c change, quantity = quantityChange change\<rparr>]
          else items)"

text \<open>
  One iteration of the attribute loop (lines 62-71); the warning is only logged. The test
  \<open>baseAttributes[a] !== undefined\<close> also passes for an inherited member, and then
  \<open>+=\<close> stores the string made from it.
\<close>

definition applyAttributeChange :: "aval obj \<Rightarrow> AttributeChange \<Rightarrow> aval obj" where
  "applyAttributeChange attrs change =
     (case getProp attrs (attribute change) of
        Own v \<Rightarrow> setProp attrs (attribute change) (plusNumber v (valueChange change))
      | Inherited \<Rightarrow> setProp attrs (attribute change) NotNumber
      | Undefined \<Rightarrow> setProp attrs (attribute change) (Num (valueChange change)))"

text \<open>One iteration of the skill loop (lines 77-104).\<close>

definition applySkillChange :: "PlayerSkill list \<Rightarrow> SkillChange \<Rightarrow> PlayerSkill list" where
  "applySkillChange skills change =
     (case findIndex (\<lambda>s. skillName s = skillName_c change) skills of
        Some existingSkillIndex \<Rightarrow>
          (if type_c change = Improve \<and> value_c change \<noteq> None then
             skills[existingSkillIndex := (skills ! existingSkillIndex)\<lparr>level :=
               Some (orElse (level (skills ! existingSkillIndex)) 0 + the (value_c change))\<rparr>]
           else if type_c change = Deteriorate \<and> value_c change \<noteq> None then
             skills[existingSkillIndex := (skills ! existingSkillIndex)\<lparr>level :=
               Some (max 0
                 (orElse (level (skills ! existingSkillIndex)) 0 - the (value_c change)))\<rparr>]
           else if type_c change = Forget then splice1 existingSkillIndex skills
           else skills)
      | None \<Rightarrow>
          if type_c change = Learn
          then skills @ [\<lparr>skillName = skillName_c change,
                           level = Some (orElse (value_c change) 1),
                           description = None\<rparr>]
          else skills)"

text \<open>
  \<open>finalAttributes[a] || 0\<close> (line 132): the own value (a zero stays zero), the inherited
  member when the name is one of \<open>Object.prototype\<close>, and 0 only when the lookup is
  \<open>undefined\<close>.
\<close>

definition attributeOr0 :: "aval obj \<Rightarrow> string \<Rightarrow> aval" where
  "attributeOr0 finalAttributes a =
     (case getProp finalAttributes a of
        Own v \<Rightarrow> v
      | Inherited \<Rightarrow> NotNumber
      | Undefined \<Rightarrow> Num 0)"

text \<open>
  The outcome of a check (lines 133-139): the comparison, then the two overrides. With a
  value that is not a number the sum is a string, which compares as \<open>NaN\<close>: false.
\<close>

definition skillCheckSuccess :: "int \<Rightarrow> aval \<Rightarrow> int \<Rightarrow> bool" where
  "skillCheckSuccess diceRollResult playerAttrValue skillCheckDC =
     (let success = (case playerAttrValue of
                       Num v \<Rightarrow> diceRollResult + v \<ge> skillCheckDC
                     | NotNumber \<Rightarrow> False)
      in if diceRollResult = 1 then False
         else if diceRollResult = 20 then True
         else success)"

text \<open>
  The six blocks of the function, in source order. Each takes the state and the summary
  built so far; a block whose guard is false changes neither.
\<close>

definition itemsBlock :: "Changes \<Rightarrow> GameState \<times> summaryNote list \<Rightarrow> GameState \<times> summaryNote list" where
  "itemsBlock changes = (\<lambda>(gameState, ctx).
     case itemChanges changes of
       Some cs \<Rightarrow>
         if length cs > 0
         then (gameState\<lparr>inventory := foldl applyItemChange (inventory gameState) cs\<rparr>,
               ctx @ [ItemsNote cs])
         else (gameState, ctx)
     | None \<Rightarrow> (gameState, ctx))"

definition attributesBlock :: "Changes \<Rightarrow> GameState \<times> summaryNote list \<Rightarrow> GameState \<times> summaryNote list" where
  "attributesBlock changes = (\<lambda>(gameState, ctx).
     case attributeChanges changes of
       Some cs \<Rightarrow>
         if length cs > 0
         then (gameState\<lparr>baseAttributes :=
                  foldl applyAttributeChange (baseAttributes gameState) cs\<rparr>,
               ctx @ [AttributesNote cs])
         else (gameState, ctx)
     | None \<Rightarrow> (gameState, ctx))"

definition skillsBlock :: "Changes \<Rightarrow> GameState \<times> summaryNote list \<Rightarrow> GameState \<times> summaryNote list" where
  "skillsBlock changes = (\<lambda>(gameState, ctx).
     case skillChanges changes of
       Some cs \<Rightarrow>
         if length cs > 0
         then (gameState\<lparr>playerSkills := foldl applySkillChange (playerSkills gameState) cs\<rparr>,
               ctx @ [SkillsNote cs])
         else (gameState, ctx)
     | None \<Rightarrow> (gameState, ctx))"

text \<open>\<open>if (changes.locationUpdate)\<close>: a missing field and the empty string are both falsy.\<close>

definition locationBlock :: "Changes \<Rightarrow> GameState \<times> summaryNote list \<Rightarrow> GameState \<times> summaryNote list" where
  "locationBlock changes = (\<lambda>(gameState, ctx).
     case locationUpdate changes of
       Some l \<Rightarrow>
         if l \<noteq> []
         then (gameState\<lparr>currentLocation := l\<rparr>, ctx @ [LocationNote l])
         else (gameState, ctx)
     | None \<Rightarrow> (gameState, ctx))"

definition flagsBlock :: "Changes \<Rightarrow> GameState \<times> summaryNote list \<Rightarrow> GameState \<times> summaryNote list" where
  "flagsBlock changes = (\<lambda>(gameState, ctx).
     case storyFlags changes of
       Some fs \<Rightarrow>
         if length fs > 0
         then (gameState\<lparr>gameProgression :=
                  foldl (\<lambda>m f. setProp m (flag f) (value_f f))
                    (gameProgression gameState) fs\<rparr>,
               ctx @ [FlagsNote fs])
         else (gameState, ctx)
     | None \<Rightarrow> (gameState, ctx))"

text \<open>
  The guard of the check (lines 123-128): the key is there and true, the attribute name is
  truthy (there and not empty), the difficulty class is not \<open>undefined\<close>.
\<close>

definition checkBlock ::
  "Changes \<Rightarrow> aval obj \<Rightarrow> real \<Rightarrow> GameState \<times> summaryNote list \<Rightarrow> GameState \<times> summaryNote list" where
  "checkBlock changes finalAttributes u = (\<lambda>(gameState, ctx).
     if requiresDiceRoll changes = Some True
        \<and> relevantAttribute changes \<noteq> None \<and> relevantAttribute changes \<noteq> Some []
        \<and> difficultyClass changes \<noteq> None
     then
       (let diceRollResult = rollD20 u;
            skillCheckAttribute = the (relevantAttribute changes);
            skillCheckDC = the (difficultyClass changes);
            playerAttrValue = attributeOr0 finalAttributes skillCheckAttribute
        in (gameState,
            ctx @ [CheckNote skillCheckAttribute skillCheckDC diceRollResult playerAttrValue
                     (skillCheckSuccess diceRollResult playerAttrValue skillCheckDC)]))
     else (gameState, ctx))"

text \<open>
  The function mutates \<open>gameState\<close> in place and returns the summary; the model returns the
  state after the call together with the summary.
\<close>

definition applyGameStateChanges ::
  "GameState \<Rightarrow> Changes \<Rightarrow> aval obj \<Rightarrow> real \<Rightarrow> GameState \<times> summaryNote list" where
  "applyGameStateChanges gameState changes finalAttributes u =
     checkBlock changes finalAttributes u
       (flagsBlock changes
         (locationBlock changes
           (skillsBlock changes
             (attributesBlock changes
               (itemsBlock changes (gameState, []))))))"

section \<open>The attribute resolver (\<open>calculateFinalAttributes\<close>)\<close>

text \<open>
  The one exception the modelled code can raise by itself: reading a property of
  \<open>undefined\<close>. \<open>TypeError k\<close> is the error for reading property \<open>k\<close>.
\<close>

datatype jsError = TypeError string

text \<open>A loop whose body may throw: the first throw ends it.\<close>

fun forEach :: "('s \<Rightarrow> 'a \<Rightarrow> 'e + 's) \<Rightarrow> 's \<Rightarrow> 'a list \<Rightarrow> 'e + 's" where
  "forEach f s [] = Inr s"
| "forEach f s (x # xs) = (case f s x of Inl e \<Rightarrow> Inl e | Inr s' \<Rightarrow> forEach f s' xs)"

text \<open>
  The function copies \<open>baseAttrs\<close> into a new object (\<open>{ ...baseAttrs }\<close>) and then only
  writes to the copy, so the model computes on the value. \<open>addBonus\<close> is one iteration of
  the inner loop over a bonus map: \<open>finalAttrs[attr] !== undefined\<close> also passes for an
  inherited member, and then \<open>+=\<close> stores the string made from it. \<open>addSelection\<close> is
  one iteration of the outer loop: an own category is an object and an inherited member
  is truthy too, but the member has no \<open>content\<close>, so indexing \<open>category.content\<close>
  throws; an inherited member found for the option has no \<open>attributeBonus\<close>, and the
  loop over \<open>undefined\<close> runs zero times.
\<close>

definition addBonus :: "aval obj \<Rightarrow> string \<times> int \<Rightarrow> aval obj" where
  "addBonus finalAttrs = (\<lambda>(attr, b).
     case getProp finalAttrs attr of
       Own v \<Rightarrow> setProp finalAttrs attr (plusNumber v b)
     | Inherited \<Rightarrow> setProp finalAttrs attr NotNumber
     | Undefined \<Rightarrow> setProp finalAttrs attr (Num b))"

definition addSelection ::
  "DndScenario \<Rightarrow> aval obj \<Rightarrow> string \<times> string \<Rightarrow> jsError + aval obj" where
  "addSelection currentScenario finalAttrs = (\<lambda>(categoryKey, selectedOptionKey).
     case getProp (playerCustomizations currentScenario) categoryKey of
       Undefined \<Rightarrow> Inr finalAttrs
     | Inherited \<Rightarrow> Inl (TypeError selectedOptionKey)
     | Own category \<Rightarrow>
         (case getProp (content category) selectedOptionKey of
            Own opt \<Rightarrow> Inr (foldl addBonus finalAttrs (attributeBonus opt))
          | Inherited \<Rightarrow> Inr finalAttrs
          | Undefined \<Rightarrow> Inr finalAttrs))"

definition calculateFinalAttributes ::
  "aval obj \<Rightarrow> string obj \<Rightarrow> DndScenario \<Rightarrow> jsError + aval obj" where
  "calculateFinalAttributes baseAttrs customs currentScenario =
     forEach (addSelection currentScenario) baseAttrs customs"

section \<open>The turn orchestrator (\<open>handleUserAction\<close>)\<close>

text \<open>
  Strings are byte lists; the two fixed narrator texts of the source are given by their
  UTF-8 bytes. \<open>dmUnavailable\<close> is the prefix of the message built in the \<open>catch\<close>
  block (it ends in \<open>: \<close> and is followed by the error's message), \<open>dmSpeechless\<close> the
  fallback for an empty narrative.
\<close>

definition dmUnavailable :: string where
  "dmUnavailable = map char_of [68, 77, 230, 154, 130, 230, 151, 182, 230, 151, 160, 230, 179,
     149, 229, 155, 158, 229, 186, 148, 239, 188, 140, 228, 188, 188, 228, 185, 142, 233, 129,
     135, 229, 136, 176, 228, 186, 134, 230, 172, 161, 229, 133, 131, 232, 163, 130, 231, 188,
     157, 227, 128, 130, 233, 148, 153, 232, 175, 175, 58, 32 :: nat]"

definition dmSpeechless :: string where
  "dmSpeechless = map char_of [68, 77, 230, 151, 160, 232, 175, 173, 228, 186, 134, 227, 128,
     130, 230, 149, 133, 228, 186, 139, 231, 187, 167, 231, 187, 173, 46, 46, 46 :: nat]"

text \<open>
  The errors the function throws, in source order: not logged in, session missing or not
  loadable, session owned by somebody else, scenario template missing, save failed; and
  the one it lets through, the resolver's exception at line 199, outside the \<open>try\<close>.
\<close>

datatype error =
  NotLoggedIn | SessionNotFound | NoAccess | ScenarioNotFound | SaveFailed | Uncaught jsError

text \<open>
  Everything outside the function is a parameter. \<open>getUser\<close> is the caller's id
  (\<open>None\<close> for an auth error or no user); \<open>selectError\<close> and \<open>updateError\<close> say
  whether the two store requests fail; the three model calls are functions of what their
  prompts are built from and return \<open>Inl\<close> of the error message when the request or the
  \<open>JSON.parse\<close> of its answer throws, \<open>Inr\<close> of the parsed value otherwise (for the
  narrative, the optional message content); \<open>messageOf\<close> is the engine's message text
  for an exception; \<open>mathRandom n\<close> is the sample used by the \<open>n\<close>-th applier call and
  \<open>dateNow n\<close> the \<open>n\<close>-th reading of the clock. The catalog \<open>allScenarios\<close>
  (\<open>data/scenarios\<close>) is an argument of the function.
\<close>

record services =
  getUser :: "string option"
  selectError :: bool
  parseAction :: "string \<Rightarrow> DndScenario \<Rightarrow> GameState \<Rightarrow> aval obj \<Rightarrow> string + Changes"
  narrate :: "string \<Rightarrow> DndScenario \<Rightarrow> summaryNote list \<Rightarrow> GameState \<Rightarrow> aval obj
                \<Rightarrow> string + string option"
  parseDmChanges :: "string \<Rightarrow> GameState \<Rightarrow> aval obj \<Rightarrow> string + Changes"
  updateError :: bool
  messageOf :: "jsError \<Rightarrow> string"
  mathRandom :: "nat \<Rightarrow> real"
  dateNow :: "nat \<Rightarrow> string"

type_synonym games = "string \<Rightarrow> GameTableRow option"

text \<open>
  What a call leaves behind: the returned state or the thrown error, the table
  \<open>games\<close> after the call, and the in-memory \<open>currentGameState\<close> as the function
  leaves it (\<open>None\<close> when it was never bound).
\<close>

record turn =
  outcome :: "error + GameState"
  stored :: games
  memory :: "GameState option"

text \<open>
  \<open>content || fallback\<close>: a missing and an empty narrative both give the fallback.
\<close>

definition narrativeOf :: "string option \<Rightarrow> string" where
  "narrativeOf reply = (case reply of None \<Rightarrow> dmSpeechless
     | Some t \<Rightarrow> if t \<noteq> [] then t else dmSpeechless)"

text \<open>
  The \<open>try\<close> block (source lines 217-559) with its \<open>catch\<close>: the state after the
  block and the text of the narrator entry.
\<close>

definition callModels ::
  "services \<Rightarrow> DndScenario \<Rightarrow> string \<Rightarrow> GameState \<Rightarrow> aval obj \<Rightarrow> GameState \<times> string" where
  "callModels sv scenario userAction currentGameState finalAttributes =
     (case parseAction sv userAction scenario currentGameState finalAttributes of
        Inl message \<Rightarrow> (currentGameState, dmUnavailable @ message)
      | Inr parsedAction \<Rightarrow>
          (let (gs1, userActionNarrativeContext) =
                 applyGameStateChanges currentGameState parsedAction finalAttributes
                   (mathRandom sv 0)
           in case calculateFinalAttributes (baseAttributes gs1)
                     (selectedCustomizations gs1) scenario of
                Inl e \<Rightarrow> (gs1, dmUnavailable @ messageOf sv e)
              | Inr finalAttributes' \<Rightarrow>
                  (case narrate sv userAction scenario userActionNarrativeContext gs1
                          finalAttributes' of
                     Inl message \<Rightarrow> (gs1, dmUnavailable @ message)
                   | Inr reply \<Rightarrow>
                       (let dmNarrative = narrativeOf reply
                        in case parseDmChanges sv dmNarrative gs1 finalAttributes' of
                             Inl message \<Rightarrow> (gs1, dmUnavailable @ message)
                           | Inr dmChanges \<Rightarrow>
                               (fst (applyGameStateChanges gs1 dmChanges finalAttributes'
                                       (mathRandom sv 1)),
                                dmNarrative)))))"

definition handleUserAction ::
  "services \<Rightarrow> DndScenario list \<Rightarrow> games \<Rightarrow> string \<Rightarrow> string \<Rightarrow> turn" where
  "handleUserAction sv allScenarios db sessionId userAction =
     (case getUser sv of
        None \<Rightarrow> \<lparr>outcome = Inl NotLoggedIn, stored = db, memory = None\<rparr>
      | Some user \<Rightarrow>
          (case (if selectError sv then None else db sessionId) of
             None \<Rightarrow> \<lparr>outcome = Inl SessionNotFound, stored = db, memory = None\<rparr>
           | Some gameData \<Rightarrow>
               if user_id gameData \<noteq> user
               then \<lparr>outcome = Inl NoAccess, stored = db, memory = None\<rparr>
               else
                 (let currentGameState = state gameData
                  in case find (\<lambda>s. id_s s = scenario_id gameData) allScenarios of
                       None \<Rightarrow> \<lparr>outcome = Inl ScenarioNotFound, stored = db,
                                 memory = Some currentGameState\<rparr>
                     | Some scenario \<Rightarrow>
                         (case calculateFinalAttributes
                                 (baseAttributes currentGameState)
                                 (selectedCustomizations currentGameState) scenario of
                            Inl e \<Rightarrow> \<lparr>outcome = Inl (Uncaught e), stored = db,
                                       memory = Some currentGameState\<rparr>
                          | Inr finalAttributes \<Rightarrow>
                         (let gs1 = currentGameState\<lparr>dialogueHistory :=
                                dialogueHistory currentGameState @
                                  [\<lparr>role = User, text_d = userAction,
                                    timestamp = dateNow sv 0\<rparr>]\<rparr>;
                              (gs2, dmNarrative) =
                                callModels sv scenario userAction gs1 finalAttributes;
                              gs3 = gs2\<lparr>dialogueHistory := dialogueHistory gs2 @
                                  [\<lparr>role = Dm, text_d = dmNarrative,
                                    timestamp = dateNow sv 1\<rparr>]\<rparr>
                          in if updateError sv
                             then \<lparr>outcome = Inl SaveFailed, stored = db, memory = Some gs3\<rparr>
                             else \<lparr>outcome = Inr gs3,
                                   stored = db(sessionId \<mapsto>
                                     gameData\<lparr>state := gs3, updated_at := dateNow sv 2\<rparr>),
                                   memory = Some gs3\<rparr>)))))"

section \<open>Character creation (\<open>app/game/new/[scenarioId]/view.tsx\<close>)\<close>

text \<open>
  The component state that decides the created game is a record; \<open>creatingGame\<close> and
  \<open>successMessage\<close> only drive the display and are left out. \<open>initForm\<close> is the effect
  that runs when the scenario is set, the handlers are the three input callbacks, and
  \<open>handleStartGame\<close> returns the \<open>gameState\<close> object that is sent to the store, or the
  error the handler shows instead. The rendered controls call the handlers with keys of
  the scenario's own objects, so the lookups of this section are lookups of own
  properties.
\<close>

definition BASE_ATTRIBUTE_VALUE :: int where
  "BASE_ATTRIBUTE_VALUE = 5"

definition TOTAL_BONUS_POINTS :: int where
  "TOTAL_BONUS_POINTS = 10"

definition MAX_STARTING_SKILLS :: nat where
  "MAX_STARTING_SKILLS = 2"

datatype formError =
  UserMissing | NameEmpty | PointsUnbalanced int | NoSkillChosen
  | NoPointsLeft | BelowBaseValue | TooManySkills

record form =
  user_f :: "string option"
  baseAttributeValues :: "int obj"
  remainingPoints :: int
  selectedCustomizations_f :: "string obj"
  selectedSkills :: "PlayerSkill list"
  gameName :: string
  error_f :: "formError option"

definition emptyForm :: form where
  "emptyForm = \<lparr>user_f = None, baseAttributeValues = [], remainingPoints = TOTAL_BONUS_POINTS,
     selectedCustomizations_f = [], selectedSkills = [], gameName = [], error_f = None\<rparr>"

definition initForm :: "DndScenario \<Rightarrow> form \<Rightarrow> form" where
  "initForm scenario f = f\<lparr>
     baseAttributeValues :=
       foldl (\<lambda>initialAttrs (attrName, d). AList.update attrName BASE_ATTRIBUTE_VALUE initialAttrs)
         [] (attributes scenario),
     remainingPoints := TOTAL_BONUS_POINTS,
     selectedCustomizations_f :=
       foldl (\<lambda>initialCustoms (categoryKey, category).
                case content category of
                  [] \<Rightarrow> initialCustoms
                | (firstOptionKey, x) # rest \<Rightarrow>
                    if firstOptionKey \<noteq> []
                    then AList.update categoryKey firstOptionKey initialCustoms
                    else initialCustoms)
         [] (playerCustomizations scenario),
     selectedSkills := []\<rparr>"

definition handleAttributeChange :: "string \<Rightarrow> int \<Rightarrow> form \<Rightarrow> form" where
  "handleAttributeChange attr change f =
     (let currentValue = orElse (map_of (baseAttributeValues f) attr) BASE_ATTRIBUTE_VALUE;
          newValue = currentValue + change
      in if change > 0 \<and> remainingPoints f \<le> 0 then f\<lparr>error_f := Some NoPointsLeft\<rparr>
         else if change < 0 \<and> newValue < BASE_ATTRIBUTE_VALUE
         then f\<lparr>error_f := Some BelowBaseValue\<rparr>
         else f\<lparr>error_f := None, remainingPoints := remainingPoints f - change,
                baseAttributeValues := AList.update attr newValue (baseAttributeValues f)\<rparr>)"

definition handleCustomizationChange :: "string \<Rightarrow> string \<Rightarrow> form \<Rightarrow> form" where
  "handleCustomizationChange categoryKey optionKey f =
     f\<lparr>selectedCustomizations_f := AList.update categoryKey optionKey (selectedCustomizations_f f)\<rparr>"

definition handleSkillToggle :: "DndScenario \<Rightarrow> string \<Rightarrow> form \<Rightarrow> form" where
  "handleSkillToggle scenario n f =
     (if list_ex (\<lambda>skill. skillName skill = n) (selectedSkills f)
      then f\<lparr>selectedSkills := filter (\<lambda>skill. skillName skill \<noteq> n) (selectedSkills f)\<rparr>
      else if length (selectedSkills f) < MAX_STARTING_SKILLS
      then (case map_of (baseSkills scenario) n of
              Some skillDetails \<Rightarrow>
                f\<lparr>error_f := None,
                  selectedSkills := selectedSkills f @
                    [\<lparr>skillName = n, level = Some 1,
                      description = Some (description_b skillDetails)\<rparr>]\<rparr>
            | None \<Rightarrow> f)
      else f\<lparr>error_f := Some TooManySkills\<rparr>)"

text \<open>
  \<open>String.prototype.trim\<close> on the ASCII white space characters, decimal rendering of an
  integer and \<open>Array.prototype.join\<close>, for the introductory text.
\<close>

definition isSpace :: "char \<Rightarrow> bool" where
  "isSpace c = (c \<in> {CHR 0x09, CHR 0x0A, CHR 0x0B, CHR 0x0C, CHR 0x0D, CHR 0x20})"

definition trim :: "string \<Rightarrow> string" where
  "trim s = rev (dropWhile isSpace (rev (dropWhile isSpace s)))"

fun digitsOf :: "nat \<Rightarrow> string" where
  "digitsOf n = (if n < 10 then [char_of (48 + n)]
                 else digitsOf (n div 10) @ [char_of (48 + n mod 10)])"

declare digitsOf.simps [simp del]

definition showInt :: "int \<Rightarrow> string" where
  "showInt i = (if i < 0 then CHR ''-'' # digitsOf (nat (- i)) else digitsOf (nat i))"

fun joinWith :: "string \<Rightarrow> string list \<Rightarrow> string" where
  "joinWith sep [] = []"
| "joinWith sep [x] = x"
| "joinWith sep (x # y # ys) = x @ sep @ joinWith sep (y # ys)"

text \<open>
  The fixed pieces of the introductory text, by their UTF-8 bytes.
\<close>

definition welcome1 :: string where
  "welcome1 = map char_of [230, 172, 162, 232, 191, 142, 230, 157, 165, 229, 136, 176, 228, 189,
     160, 231, 154, 132, 230, 150, 176, 229, 134, 146, 233, 153, 169, 239, 188, 140 :: nat]"

definition welcome2 :: string where
  "welcome2 = map char_of [239, 188, 129, 10, 10 :: nat]"

definition story1 :: string where
  "story1 = map char_of [228, 189, 160, 231, 154, 132, 230, 149, 133, 228, 186, 139, 229, 176,
     134, 228, 187, 142, 32, 34 :: nat]"

definition story2 :: string where
  "story2 = map char_of [34, 32, 229, 188, 128, 229, 167, 139, 227, 128, 130, 10, 10 :: nat]"

definition attrsHeader :: string where
  "attrsHeader = map char_of [228, 189, 160, 231, 154, 132, 232, 167, 146, 232, 137, 178, 229,
     177, 158, 230, 128, 167, 229, 166, 130, 228, 184, 139, 239, 188, 154, 10 :: nat]"

definition customsHeader :: string where
  "customsHeader = map char_of [10, 228, 189, 160, 233, 128, 137, 230, 139, 169, 231, 154, 132,
     232, 135, 170, 229, 174, 154, 228, 185, 137, 232, 131, 140, 230, 153, 175, 229, 146, 140,
     228, 184, 147, 233, 149, 191, 239, 188, 154, 10 :: nat]"

definition wideColon :: string where
  "wideColon = map char_of [239, 188, 154 :: nat]"

definition bonusOpen :: string where
  "bonusOpen = map char_of [32, 32, 40, 229, 177, 158, 230, 128, 167, 229, 138, 160, 230, 136,
     144, 239, 188, 154 :: nat]"

definition skillsHeader :: string where
  "skillsHeader = map char_of [10, 228, 189, 160, 230, 142, 140, 230, 143, 161, 231, 154, 132,
     229, 136, 157, 229, 167, 139, 230, 138, 128, 232, 131, 189, 239, 188, 154, 10 :: nat]"

definition skillAttrOpen :: string where
  "skillAttrOpen = map char_of [32, 40, 229, 133, 179, 232, 129, 148, 229, 177, 158, 230, 128,
     167, 58, 32 :: nat]"

definition unknownAttr :: string where
  "unknownAttr = map char_of [230, 156, 170, 231, 159, 165 :: nat]"

definition ready :: string where
  "ready = map char_of [10, 229, 135, 134, 229, 164, 135, 229, 165, 189, 229, 188, 128, 229,
     167, 139, 228, 189, 160, 231, 154, 132, 230, 151, 133, 231, 168, 139, 228, 186, 134, 229,
     144, 151, 239, 188, 159 :: nat]"

definition customLine :: "DndScenario \<Rightarrow> string \<times> string \<Rightarrow> string" where
  "customLine scenario = (\<lambda>(categoryKey, optionKey).
     case map_of (playerCustomizations scenario) categoryKey of
       None \<Rightarrow> []
     | Some category \<Rightarrow>
         (case map_of (content category) optionKey of
            None \<Rightarrow> []
          | Some opt \<Rightarrow>
              ''- '' @ description_c category @ wideColon @ optionKey @ '' - ''
                @ description_i opt @ [CHR 0x0A]
              @ (if length (attributeBonus opt) > 0
                 then bonusOpen
                   @ joinWith '', '' (map (\<lambda>(attr, bonus). attr @ '' +'' @ showInt bonus)
                        (attributeBonus opt))
                   @ '')'' @ [CHR 0x0A]
                 else [])))"

definition skillLine :: "DndScenario \<Rightarrow> PlayerSkill \<Rightarrow> string" where
  "skillLine scenario skill =
     ''- '' @ skillName skill @ '': ''
     @ (case map_of (baseSkills scenario) (skillName skill) of
          None \<Rightarrow> [] | Some skillDetails \<Rightarrow> description_b skillDetails)
     @ skillAttrOpen
     @ (case map_of (baseSkills scenario) (skillName skill) of
          None \<Rightarrow> unknownAttr
        | Some skillDetails \<Rightarrow>
            if attribute_b skillDetails \<noteq> [] then attribute_b skillDetails else unknownAttr)
     @ '')'' @ [CHR 0x0A]"

definition initialDmText :: "DndScenario \<Rightarrow> form \<Rightarrow> string" where
  "initialDmText scenario f =
     welcome1 @ trim (gameName f) @ welcome2
     @ story1 @ startingPoint scenario @ story2
     @ attrsHeader
     @ concat (map (\<lambda>(attrName, v). ''- '' @ attrName @ '': '' @ showInt v @ [CHR 0x0A])
         (baseAttributeValues f))
     @ customsHeader
     @ concat (map (customLine scenario) (selectedCustomizations_f f))
     @ (if length (selectedSkills f) > 0
        then skillsHeader @ concat (map (skillLine scenario) (selectedSkills f))
        else [])
     @ ready"

text \<open>The form's numbers as attribute values of a game state.\<close>

definition numbers :: "int obj \<Rightarrow> aval obj" where
  "numbers m = map (\<lambda>(k, v). (k, Num v)) m"

definition handleStartGame :: "DndScenario \<Rightarrow> string \<Rightarrow> form \<Rightarrow> formError + GameState" where
  "handleStartGame scenario now f =
     (if user_f f = None then Inl UserMissing
      else if trim (gameName f) = [] then Inl NameEmpty
      else if remainingPoints f \<noteq> 0 then Inl (PointsUnbalanced (remainingPoints f))
      else if length (selectedSkills f) = 0 then Inl NoSkillChosen
      else Inr \<lparr>scenarioId = id_s scenario,
                scenarioName = Dnd_Scenario scenario,
                baseAttributes = numbers (baseAttributeValues f),
                selectedCustomizations = selectedCustomizations_f f,
                currentLocation = startingPoint scenario,
                playerCharacterName = Some (trim (gameName f)),
                inventory = [],
                playerSkills = selectedSkills f,
                gameProgression = [],
                dialogueHistory =
                  [\<lparr>role = Dm, text_d = initialDmText scenario f, timestamp = now\<rparr>]\<rparr>)"

section \<open>Notions used in the statements\<close>

text \<open>
  A run of the applier over a sequence of calls, each with its delta, the effective
  attributes passed to it and its random sample.
\<close>

fun applySequence :: "GameState \<Rightarrow> (Changes \<times> aval obj \<times> real) list \<Rightarrow> GameState" where
  "applySequence gs [] = gs"
| "applySequence gs ((ch, fa, u) # rest) = applySequence (fst (applyGameStateChanges gs ch fa u)) rest"

definition inventoryPositive :: "InventoryItem list \<Rightarrow> bool" where
  "inventoryPositive es = list_all (\<lambda>e. 0 < quantity e) es"

text \<open>
  An optional list field read as a list.
\<close>

definition listOf :: "'a list option \<Rightarrow> 'a list" where
  "listOf x = (case x of None \<Rightarrow> [] | Some xs \<Rightarrow> xs)"

definition isCheckNote :: "summaryNote \<Rightarrow> bool" where
  "isCheckNote n = (case n of CheckNote a dc r v ok \<Rightarrow> True | _ \<Rightarrow> False)"

text \<open>
  The state and summary after the first five blocks.
\<close>

definition beforeCheck :: "GameState \<Rightarrow> Changes \<Rightarrow> GameState \<times> summaryNote list" where
  "beforeCheck gs ch =
     flagsBlock ch (locationBlock ch (skillsBlock ch (attributesBlock ch (itemsBlock ch (gs, [])))))"

text \<open>
  The steps of a turn: the loaded state with the player's entry, the effective attributes
  computed at the start, the state a degraded turn ends with (what was kept, plus the
  player's entry and the placeholder), and a turn that was saved.
\<close>

definition turnStart :: "services \<Rightarrow> GameTableRow \<Rightarrow> string \<Rightarrow> GameState" where
  "turnStart sv row act = (state row)\<lparr>dialogueHistory := dialogueHistory (state row) @
     [\<lparr>role = User, text_d = act, timestamp = dateNow sv 0\<rparr>]\<rparr>"

definition startAttributes :: "GameTableRow \<Rightarrow> DndScenario \<Rightarrow> jsError + aval obj" where
  "startAttributes row sc =
     calculateFinalAttributes (baseAttributes (state row)) (selectedCustomizations (state row)) sc"

definition degraded :: "services \<Rightarrow> GameTableRow \<Rightarrow> string \<Rightarrow> GameState \<Rightarrow> string \<Rightarrow> GameState" where
  "degraded sv row act kept message = kept\<lparr>dialogueHistory := dialogueHistory (state row) @
     [\<lparr>role = User, text_d = act, timestamp = dateNow sv 0\<rparr>,
      \<lparr>role = Dm, text_d = dmUnavailable @ message, timestamp = dateNow sv 1\<rparr>]\<rparr>"

definition saved :: "services \<Rightarrow> games \<Rightarrow> string \<Rightarrow> GameTableRow \<Rightarrow> GameState \<Rightarrow> turn" where
  "saved sv db sid row gs = \<lparr>outcome = Inr gs,
     stored = db(sid \<mapsto> row\<lparr>state := gs, updated_at := dateNow sv 2\<rparr>),
     memory = Some gs\<rparr>"

text \<open>
  The first option key of a category, when it has one that is not empty.
\<close>

definition firstOption :: "PlayerCustomizationCategory \<Rightarrow> string option" where
  "firstOption category = (case content category of [] \<Rightarrow> None
     | (firstOptionKey, x) # rest \<Rightarrow> if firstOptionKey \<noteq> [] then Some firstOptionKey else None)"

section \<open>Example data\<close>

definition demoState :: GameState where
  "demoState = \<lparr>scenarioId = ''s1'', scenarioName = ''Demo'', baseAttributes = [(''Strength'', Num 5)],
     selectedCustomizations = [], currentLocation = ''cave'', playerCharacterName = Some ''Ann'',
     inventory = [\<lparr>item = ''sword'', quantity = 1\<rparr>], playerSkills = [],
     gameProgression = [],
     dialogueHistory = [\<lparr>role = Dm, text_d = ''Welcome.'', timestamp = ''t0''\<rparr>]\<rparr>"

definition demoScenario :: DndScenario where
  "demoScenario = \<lparr>id_s = ''s1'', Dnd_Scenario = ''Demo'',
     attributes = [(''Strength'', ''might''), (''Agility'', ''speed'')],
     baseSkills = [(''stealth'', \<lparr>attribute_b = ''Agility'', description_b = ''hide''\<rparr>)],
     startingPoint = ''gate'',
     playerCustomizations =
       [(''role'', \<lparr>description_c = ''Role'', content =
           [(''warrior'', \<lparr>description_i = ''fighter'', attributeBonus = [(''Strength'', 2)]\<rparr>),
            (''sage'', \<lparr>description_i = ''scholar'', attributeBonus = [(''Wisdom'', 1)]\<rparr>)]\<rparr>)]\<rparr>"


definition sellSword :: Changes where
  "sellSword = emptyChanges\<lparr>itemChanges := Some [\<lparr>item_c = ''sword'', quantityChange = - 1\<rparr>]\<rparr>"

definition findPotions :: Changes where
  "findPotions = emptyChanges\<lparr>itemChanges := Some [\<lparr>item_c = ''potion'', quantityChange = 2\<rparr>],
     locationUpdate := Some ''market''\<rparr>"

definition demoRow :: GameTableRow where
  "demoRow = \<lparr>user_id = ''u1'', scenario_id = ''s1'', name = ''Ann'', state = demoState,
     created_at = ''t0'', updated_at = ''t0'', is_active = True\<rparr>"

definition demoGames :: games where
  "demoGames = [''g1'' \<mapsto> demoRow]"

definition demoServices :: services where
  "demoServices = \<lparr>getUser = Some ''u1'', selectError = False,
     parseAction = (\<lambda>act sc gs fa. Inr sellSword),
     narrate = (\<lambda>act sc ctx gs fa. Inr (Some ''Sold.'')),
     parseDmChanges = (\<lambda>narrative gs fa. Inr findPotions),
     updateError = False, messageOf = (\<lambda>e. ''type error''),
     mathRandom = (\<lambda>n. 0), dateNow = (\<lambda>n. ''t1'')\<rparr>"

definition intentDown :: services where
  "intentDown = demoServices\<lparr>parseAction := (\<lambda>act sc gs fa. Inl ''down'')\<rparr>"

definition narratorDown :: services where
  "narratorDown = demoServices\<lparr>narrate := (\<lambda>act sc ctx gs fa. Inl ''timeout'')\<rparr>"

definition extractionDown :: services where
  "extractionDown = demoServices\<lparr>parseDmChanges := (\<lambda>narrative gs fa. Inl ''bad json'')\<rparr>"

definition demoForm :: form where
  "demoForm = handleSkillToggle demoScenario ''stealth''
     (((handleAttributeChange ''Strength'' 1) ^^ 10)
        (initForm demoScenario (emptyForm\<lparr>user_f := Some ''u1'', gameName := ''Ann''\<rparr>)))"

section \<open>Properties of the applier\<close>

text \<open>
  The item loop body, unfolded along the list: the first entry with the name is the one changed.
\<close>

lemma splice1_Suc: "splice1 (Suc i) (x # xs) = x # splice1 i xs"
  by (simp add: splice1_def)

lemma splice1_0: "splice1 0 (x # xs) = xs"
  by (simp add: splice1_def)

lemma applyItemChange_Nil:
  "applyItemChange [] c =
     (if quantityChange c > 0 then [\<lparr>item = item_c c, quantity = quantityChange c\<rparr>] else [])"
  by (simp add: applyItemChange_def)

lemma applyItemChange_Cons:
  "applyItemChange (e # es) c =
     (if item e = item_c c
      then (if quantity e + quantityChange c \<le> 0 then es
            else e\<lparr>quantity := quantity e + quantityChange c\<rparr> # es)
      else e # applyItemChange es c)"
  by (simp add: applyItemChange_def Let_def splice1_Suc splice1_0 split: option.splits)

lemma applyItemChange_positive:
  "inventoryPositive es \<Longrightarrow> inventoryPositive (applyItemChange es c)"
  by (induction es) (auto simp: applyItemChange_Nil applyItemChange_Cons inventoryPositive_def)

lemma foldl_applyItemChange_positive:
  "inventoryPositive es \<Longrightarrow> inventoryPositive (foldl applyItemChange es cs)"
  by (induction cs arbitrary: es) (simp_all add: applyItemChange_positive)

lemma applyItemChange_missing:
  "item_c c \<notin> item ` set es \<Longrightarrow>
   applyItemChange es c =
     (if quantityChange c > 0 then es @ [\<lparr>item = item_c c, quantity = quantityChange c\<rparr>] else es)"
  by (induction es) (auto simp: applyItemChange_Nil applyItemChange_Cons)

lemma applyItemChange_found:
  "item e = item_c c \<Longrightarrow> item_c c \<notin> item ` set pre \<Longrightarrow>
   applyItemChange (pre @ e # post) c =
     (if quantity e + quantityChange c \<le> 0 then pre @ post
      else pre @ e\<lparr>quantity := quantity e + quantityChange c\<rparr> # post)"
  by (induction pre) (auto simp: applyItemChange_Cons)

text \<open>
  The skill loop body, unfolded along the list, and what it does to the names.
\<close>

lemma applySkillChange_Nil:
  "applySkillChange [] c =
     (if type_c c = Learn
      then [\<lparr>skillName = skillName_c c, level = Some (orElse (value_c c) 1), description = None\<rparr>]
      else [])"
  by (simp add: applySkillChange_def)

lemma applySkillChange_Cons:
  "applySkillChange (s # ss) c =
     (if skillName s = skillName_c c
      then (case type_c c of
              Learn \<Rightarrow> s # ss
            | Forget \<Rightarrow> ss
            | Improve \<Rightarrow> (case value_c c of None \<Rightarrow> s # ss
                | Some k \<Rightarrow> s\<lparr>level := Some (orElse (level s) 0 + k)\<rparr> # ss)
            | Deteriorate \<Rightarrow> (case value_c c of None \<Rightarrow> s # ss
                | Some k \<Rightarrow> s\<lparr>level := Some (max 0 (orElse (level s) 0 - k))\<rparr> # ss))
      else s # applySkillChange ss c)"
  by (cases "type_c c"; cases "value_c c")
     (simp_all add: applySkillChange_def splice1_Suc splice1_0 split: option.splits)





lemma applySkillChange_no_value:
  "type_c c = Improve \<or> type_c c = Deteriorate \<Longrightarrow> value_c c = None \<Longrightarrow>
   applySkillChange ss c = ss"
  by (induction ss) (auto simp: applySkillChange_Nil applySkillChange_Cons)

text \<open>
  The state after a call, field by field.
\<close>

lemma fst_itemsBlock:
  "fst (itemsBlock ch (g, n)) =
     g\<lparr>inventory := foldl applyItemChange (inventory g) (listOf (itemChanges ch))\<rparr>"
  by (simp add: itemsBlock_def listOf_def split: option.splits)

lemma fst_attributesBlock:
  "fst (attributesBlock ch (g, n)) =
     g\<lparr>baseAttributes := foldl applyAttributeChange (baseAttributes g) (listOf (attributeChanges ch))\<rparr>"
  by (simp add: attributesBlock_def listOf_def split: option.splits)

lemma fst_skillsBlock:
  "fst (skillsBlock ch (g, n)) =
     g\<lparr>playerSkills := foldl applySkillChange (playerSkills g) (listOf (skillChanges ch))\<rparr>"
  by (simp add: skillsBlock_def listOf_def split: option.splits)

lemma fst_locationBlock:
  "fst (locationBlock ch (g, n)) =
     g\<lparr>currentLocation := (case locationUpdate ch of None \<Rightarrow> currentLocation g
          | Some l \<Rightarrow> if l \<noteq> [] then l else currentLocation g)\<rparr>"
  by (simp add: locationBlock_def split: option.splits)

lemma fst_flagsBlock:
  "fst (flagsBlock ch (g, n)) =
     g\<lparr>gameProgression := foldl (\<lambda>m f. setProp m (flag f) (value_f f))
          (gameProgression g) (listOf (storyFlags ch))\<rparr>"
  by (simp add: flagsBlock_def listOf_def split: option.splits)

lemma fst_checkBlock: "fst (checkBlock ch fa u (g, n)) = g"
  by (simp add: checkBlock_def Let_def)

lemma applyGameStateChanges_state:
  "fst (applyGameStateChanges gs ch fa u) =
     gs\<lparr>inventory := foldl applyItemChange (inventory gs) (listOf (itemChanges ch)),
        baseAttributes := foldl applyAttributeChange (baseAttributes gs) (listOf (attributeChanges ch)),
        playerSkills := foldl applySkillChange (playerSkills gs) (listOf (skillChanges ch)),
        currentLocation := (case locationUpdate ch of None \<Rightarrow> currentLocation gs
          | Some l \<Rightarrow> if l \<noteq> [] then l else currentLocation gs),
        gameProgression := foldl (\<lambda>m f. setProp m (flag f) (value_f f))
          (gameProgression gs) (listOf (storyFlags ch))\<rparr>"
proof -
  define p1 where "p1 = itemsBlock ch (gs, [])"
  define p2 where "p2 = attributesBlock ch p1"
  define p3 where "p3 = skillsBlock ch p2"
  define p4 where "p4 = locationBlock ch p3"
  define p5 where "p5 = flagsBlock ch p4"
  have 1: "fst p1 = gs\<lparr>inventory := foldl applyItemChange (inventory gs) (listOf (itemChanges ch))\<rparr>"
    unfolding p1_def by (rule fst_itemsBlock)
  have 2: "fst p2 = (fst p1)\<lparr>baseAttributes := foldl applyAttributeChange (baseAttributes (fst p1)) (listOf (attributeChanges ch))\<rparr>"
    unfolding p2_def using fst_attributesBlock [of ch "fst p1" "snd p1"] by simp
  have 3: "fst p3 = (fst p2)\<lparr>playerSkills := foldl applySkillChange (playerSkills (fst p2)) (listOf (skillChanges ch))\<rparr>"
    unfolding p3_def using fst_skillsBlock [of ch "fst p2" "snd p2"] by simp
  have 4: "fst p4 = (fst p3)\<lparr>currentLocation := (case locationUpdate ch of None \<Rightarrow> currentLocation (fst p3)
          | Some l \<Rightarrow> if l \<noteq> [] then l else currentLocation (fst p3))\<rparr>"
    unfolding p4_def using fst_locationBlock [of ch "fst p3" "snd p3"] by simp
  have 5: "fst p5 = (fst p4)\<lparr>gameProgression := foldl (\<lambda>m f. setProp m (flag f) (value_f f))
          (gameProgression (fst p4)) (listOf (storyFlags ch))\<rparr>"
    unfolding p5_def using fst_flagsBlock [of ch "fst p4" "snd p4"] by simp
  have 6: "fst (applyGameStateChanges gs ch fa u) = fst p5"
    unfolding applyGameStateChanges_def p5_def p4_def p3_def p2_def p1_def
    using fst_checkBlock [of ch fa u "fst p5" "snd p5"]
    by (simp add: p5_def p4_def p3_def p2_def p1_def)
  show ?thesis
    by (simp add: 6 5 4 3 2 1 split: option.splits)
qed

lemma applyGameStateChanges_history:
  "dialogueHistory (fst (applyGameStateChanges gs ch fa u)) = dialogueHistory gs"
  by (simp add: applyGameStateChanges_state)

lemma applyGameStateChanges_customs:
  "selectedCustomizations (fst (applyGameStateChanges gs ch fa u)) = selectedCustomizations gs"
  by (simp add: applyGameStateChanges_state)

lemma applySequence_positive:
  "inventoryPositive (inventory gs) \<Longrightarrow> inventoryPositive (inventory (applySequence gs steps))"
proof (induction steps arbitrary: gs)
  case Nil
  then show ?case by simp
next
  case (Cons s steps)
  obtain ch fa u where s: "s = (ch, fa, u)" by (cases s) auto
  have "inventoryPositive (inventory (fst (applyGameStateChanges gs ch fa u)))"
    using Cons.prems by (simp add: applyGameStateChanges_state foldl_applyItemChange_positive)
  then show ?case unfolding s by (simp add: Cons.IH)
qed


text \<open>
  The skill check. With a number as the attribute value the outcome is the comparison with
  the two critical rolls overriding it; with a value that is not a number the comparison is
  false, so only a roll of 20 succeeds. An attribute that is not an own property of the
  effective attributes counts 0 unless its name is a member of \<open>Object.prototype\<close>.
\<close>

lemma skillCheckSuccess_iff:
  "skillCheckSuccess r (Num v) dc \<longleftrightarrow> r = 20 \<or> (r \<noteq> 1 \<and> r + v \<ge> dc)"
  by (auto simp: skillCheckSuccess_def Let_def)

lemma skillCheckSuccess_NotNumber:
  "skillCheckSuccess r NotNumber dc \<longleftrightarrow> r = 20"
  by (auto simp: skillCheckSuccess_def Let_def)

lemma attributeOr0_own: "map_of fa a = Some x \<Longrightarrow> attributeOr0 fa a = x"
  by (simp add: attributeOr0_def getProp_def)

lemma attributeOr0_absent:
  "map_of fa a = None \<Longrightarrow>
   attributeOr0 fa a = (if a \<in> set objectPrototypeKeys then NotNumber else Num 0)"
  by (simp add: attributeOr0_def getProp_def)

lemma rollD20_range: "0 \<le> u \<Longrightarrow> u < 1 \<Longrightarrow> 1 \<le> rollD20 u \<and> rollD20 u \<le> 20"
  unfolding rollD20_def by (simp add: floor_less_iff le_floor_iff)

text \<open>
  The summary: only the last block writes a check sentence.
\<close>

lemma applyGameStateChanges_beforeCheck:
  "applyGameStateChanges gs ch fa u = checkBlock ch fa u (beforeCheck gs ch)"
  by (simp add: applyGameStateChanges_def beforeCheck_def)

lemma beforeCheck_ignores_check_fields:
  "beforeCheck gs (ch\<lparr>requiresDiceRoll := x\<rparr>) = beforeCheck gs ch"
  by (simp add: beforeCheck_def flagsBlock_def locationBlock_def skillsBlock_def
        attributesBlock_def itemsBlock_def)

lemma noCheck_itemsBlock:
  "filter isCheckNote (snd (itemsBlock ch p)) = filter isCheckNote (snd p)"
  by (cases p) (simp add: itemsBlock_def isCheckNote_def split: option.splits)

lemma noCheck_attributesBlock:
  "filter isCheckNote (snd (attributesBlock ch p)) = filter isCheckNote (snd p)"
  by (cases p) (simp add: attributesBlock_def isCheckNote_def split: option.splits)

lemma noCheck_skillsBlock:
  "filter isCheckNote (snd (skillsBlock ch p)) = filter isCheckNote (snd p)"
  by (cases p) (simp add: skillsBlock_def isCheckNote_def split: option.splits)

lemma noCheck_locationBlock:
  "filter isCheckNote (snd (locationBlock ch p)) = filter isCheckNote (snd p)"
  by (cases p) (simp add: locationBlock_def isCheckNote_def split: option.splits)

lemma noCheck_flagsBlock:
  "filter isCheckNote (snd (flagsBlock ch p)) = filter isCheckNote (snd p)"
  by (cases p) (simp add: flagsBlock_def isCheckNote_def split: option.splits)

lemma noCheck_beforeCheck: "filter isCheckNote (snd (beforeCheck gs ch)) = []"
  by (simp add: beforeCheck_def noCheck_itemsBlock noCheck_attributesBlock noCheck_skillsBlock
        noCheck_locationBlock noCheck_flagsBlock)

lemma checkBlock_off:
  "requiresDiceRoll ch \<noteq> Some True \<Longrightarrow> checkBlock ch fa u p = p"
  by (cases p) (simp add: checkBlock_def)

lemma checkBlock_on:
  "requiresDiceRoll ch = Some True \<Longrightarrow> relevantAttribute ch = Some a \<Longrightarrow> a \<noteq> [] \<Longrightarrow>
   difficultyClass ch = Some dc \<Longrightarrow>
   checkBlock ch fa u p =
     (fst p, snd p @ [CheckNote a dc (rollD20 u) (attributeOr0 fa a)
        (skillCheckSuccess (rollD20 u) (attributeOr0 fa a) dc)])"
  by (cases p) (simp add: checkBlock_def Let_def)

text \<open>
  A check whose attribute lookup gives a number: the roll lies in \<open>[1, 20]\<close>, one check sentence
  is appended to the summary, success is (roll 20) or (roll not 1 and roll + value at least the
  threshold), and the state does not depend on the roll. Scenario 4 of the specification: roll
  15 with Strength 3 against 17 succeeds, roll 1 with Strength 10 against 5 fails.
\<close>

lemma skill_check_with_number:
  assumes "requiresDiceRoll ch = Some True" and "relevantAttribute ch = Some a" and "a \<noteq> []"
    and "difficultyClass ch = Some dc" and "0 \<le> u" and "u < 1"
    and "attributeOr0 fa a = Num v"
  shows "1 \<le> rollD20 u \<and> rollD20 u \<le> 20
    \<and> snd (applyGameStateChanges gs ch fa u) =
        snd (applyGameStateChanges gs (ch\<lparr>requiresDiceRoll := Some False\<rparr>) fa u) @
        [CheckNote a dc (rollD20 u) (Num v)
           (rollD20 u = 20 \<or> rollD20 u \<noteq> 1 \<and> rollD20 u + v \<ge> dc)]
    \<and> filter isCheckNote (snd (applyGameStateChanges gs (ch\<lparr>requiresDiceRoll := Some False\<rparr>) fa u)) = []
    \<and> \<not> skillCheckSuccess 1 x dc' \<and> skillCheckSuccess 20 x dc'
    \<and> fst (applyGameStateChanges gs ch fa u) =
        fst (applyGameStateChanges gs (ch\<lparr>requiresDiceRoll := Some False\<rparr>) fa' u')"
proof -
  have off: "applyGameStateChanges gs (ch\<lparr>requiresDiceRoll := Some False\<rparr>) fa'' u'' = beforeCheck gs ch"
    for fa'' u''
    by (simp add: applyGameStateChanges_beforeCheck beforeCheck_ignores_check_fields checkBlock_off)
  have on: "applyGameStateChanges gs ch fa u =
     (fst (beforeCheck gs ch), snd (beforeCheck gs ch) @
        [CheckNote a dc (rollD20 u) (Num v) (skillCheckSuccess (rollD20 u) (Num v) dc)])"
    using assms(1-4) assms(7) by (simp add: applyGameStateChanges_beforeCheck checkBlock_on)
  have crit: "\<not> skillCheckSuccess 1 x dc' \<and> skillCheckSuccess 20 x dc'"
    by (simp add: skillCheckSuccess_def)
  show ?thesis
    using rollD20_range [OF assms(5,6)] crit
    by (simp add: off on noCheck_beforeCheck skillCheckSuccess_iff)
qed

lemma skill_check_scenario_4:
  "snd (applyGameStateChanges demoState
        (emptyChanges\<lparr>requiresDiceRoll := Some True, relevantAttribute := Some ''Strength'',
           difficultyClass := Some 17\<rparr>) [(''Strength'', Num 3)] (7 / 10)) =
      [CheckNote ''Strength'' 17 15 (Num 3) True]
   \<and> snd (applyGameStateChanges demoState
        (emptyChanges\<lparr>requiresDiceRoll := Some True, relevantAttribute := Some ''Strength'',
           difficultyClass := Some 5\<rparr>) [(''Strength'', Num 10)] 0) =
      [CheckNote ''Strength'' 5 1 (Num 10) False]"
  by (simp add: emptyChanges_def rollD20_def applyGameStateChanges_def itemsBlock_def
        attributesBlock_def skillsBlock_def locationBlock_def flagsBlock_def checkBlock_def
        attributeOr0_def getProp_def skillCheckSuccess_def)

section \<open>Properties of the resolver\<close>

text \<open>
  The resolver throws exactly when a selected category key is not an own property of the
  scenario's categories and names a member of \<open>Object.prototype\<close>; whether it throws does
  not depend on the base attributes. A selection whose category or option is unknown (and not
  such a name) is skipped. Scenario 1 of the specification.
\<close>

lemma addSelection_throws:
  "(\<exists>e. addSelection sc b p = Inl e) \<longleftrightarrow> getProp (playerCustomizations sc) (fst p) = Inherited"
  by (cases p) (auto simp: addSelection_def split: lookup.splits)

lemma calculateFinalAttributes_throws:
  "(\<exists>e. calculateFinalAttributes b cs sc = Inl e) \<longleftrightarrow>
   (\<exists>p \<in> set cs. getProp (playerCustomizations sc) (fst p) = Inherited)"
  unfolding calculateFinalAttributes_def
proof (induction cs arbitrary: b)
  case Nil
  show ?case by simp
next
  case (Cons p ps)
  show ?case
  proof (cases "addSelection sc b p")
    case (Inl e)
    then have "getProp (playerCustomizations sc) (fst p) = Inherited"
      using addSelection_throws [of sc b p] by blast
    with Inl show ?thesis by simp
  next
    case (Inr b')
    then have "getProp (playerCustomizations sc) (fst p) \<noteq> Inherited"
      using addSelection_throws [of sc b p] by auto
    with Inr Cons.IH [of b'] show ?thesis by simp
  qed
qed

lemma resolves_for_same_selections:
  assumes "calculateFinalAttributes b cs sc = Inr x"
  shows "\<exists>y. calculateFinalAttributes b' cs sc = Inr y"
proof (cases "calculateFinalAttributes b' cs sc")
  case (Inl e)
  then have "\<exists>p \<in> set cs. getProp (playerCustomizations sc) (fst p) = Inherited"
    using calculateFinalAttributes_throws [of b' cs sc] by blast
  then have "\<exists>e. calculateFinalAttributes b cs sc = Inl e"
    using calculateFinalAttributes_throws [of b cs sc] by blast
  with assms show ?thesis by simp
next
  case (Inr y)
  then show ?thesis by blast
qed

lemma addSelection_unknown_category:
  "map_of (playerCustomizations sc) k = None \<Longrightarrow> k \<notin> set objectPrototypeKeys \<Longrightarrow>
   addSelection sc b (k, opt) = Inr b"
  by (simp add: addSelection_def getProp_def)

lemma addSelection_unknown_option:
  "map_of (playerCustomizations sc) k = Some category \<Longrightarrow> map_of (content category) opt = None \<Longrightarrow>
   addSelection sc b (k, opt) = Inr b"
  by (simp add: addSelection_def getProp_def)

lemma resolver_scenario_1:
  "calculateFinalAttributes [(''Strength'', Num 5), (''Agility'', Num 5)]
     [(''role'', ''warrior'')] demoScenario = Inr [(''Strength'', Num 7), (''Agility'', Num 5)]"
  by (simp add: calculateFinalAttributes_def addSelection_def addBonus_def demoScenario_def
        getProp_def setProp_def plusNumber_def)

section \<open>Properties of the orchestrator\<close>

text \<open>
  The narration calls leave the history alone; the four ways they end; the effective
  attributes resolve again after the intent delta when they resolved at the start of the
  turn; and the text of the narrator entry in each of the four cases.
\<close>

lemma callModels_history:
  "dialogueHistory (fst (callModels sv sc act gs fa)) = dialogueHistory gs"
  by (simp add: callModels_def Let_def split_def applyGameStateChanges_history
           split: sum.splits option.splits)

lemma callModels_cases:
  "callModels sv sc act g0 fa =
     (case parseAction sv act sc g0 fa of
        Inl message \<Rightarrow> (g0, dmUnavailable @ message)
      | Inr d \<Rightarrow>
          (let ap = applyGameStateChanges g0 d fa (mathRandom sv 0)
           in case calculateFinalAttributes (baseAttributes (fst ap))
                     (selectedCustomizations (fst ap)) sc of
                Inl e \<Rightarrow> (fst ap, dmUnavailable @ messageOf sv e)
              | Inr fa' \<Rightarrow>
                 (case narrate sv act sc (snd ap) (fst ap) fa' of
                    Inl message \<Rightarrow> (fst ap, dmUnavailable @ message)
                  | Inr reply \<Rightarrow>
                      (case parseDmChanges sv (narrativeOf reply) (fst ap) fa' of
                         Inl message \<Rightarrow> (fst ap, dmUnavailable @ message)
                       | Inr dmChanges \<Rightarrow>
                           (fst (applyGameStateChanges (fst ap) dmChanges fa' (mathRandom sv 1)),
                            narrativeOf reply)))))"
  by (simp add: callModels_def Let_def split_def split: sum.splits)

lemma resolves_after_intent:
  assumes "startAttributes row sc = Inr fa"
  shows "\<exists>fa'. calculateFinalAttributes
           (baseAttributes (fst (applyGameStateChanges (turnStart sv row act) d fa u)))
           (selectedCustomizations (fst (applyGameStateChanges (turnStart sv row act) d fa u)))
           sc = Inr fa'"
  using assms resolves_for_same_selections
  by (simp add: startAttributes_def applyGameStateChanges_customs turnStart_def)

lemma callModels_text:
  assumes "\<And>d. \<exists>fa'. calculateFinalAttributes
             (baseAttributes (fst (applyGameStateChanges g0 d fa (mathRandom sv 0))))
             (selectedCustomizations (fst (applyGameStateChanges g0 d fa (mathRandom sv 0))))
             sc = Inr fa'"
  shows "(\<exists>m. parseAction sv act sc g0 fa = Inl m
            \<and> snd (callModels sv sc act g0 fa) = dmUnavailable @ m)
     \<or> (\<exists>d ap fa'. parseAction sv act sc g0 fa = Inr d
            \<and> ap = applyGameStateChanges g0 d fa (mathRandom sv 0)
            \<and> calculateFinalAttributes (baseAttributes (fst ap))
                 (selectedCustomizations (fst ap)) sc = Inr fa'
            \<and> ((\<exists>m. narrate sv act sc (snd ap) (fst ap) fa' = Inl m
                     \<and> snd (callModels sv sc act g0 fa) = dmUnavailable @ m)
               \<or> (\<exists>reply. narrate sv act sc (snd ap) (fst ap) fa' = Inr reply
                     \<and> ((\<exists>m. parseDmChanges sv (narrativeOf reply) (fst ap) fa' = Inl m
                              \<and> snd (callModels sv sc act g0 fa) = dmUnavailable @ m)
                        \<or> (\<exists>dm. parseDmChanges sv (narrativeOf reply) (fst ap) fa' = Inr dm
                              \<and> snd (callModels sv sc act g0 fa) = narrativeOf reply)))))"
proof (cases "parseAction sv act sc g0 fa")
  case (Inl m)
  then show ?thesis by (simp add: callModels_cases)
next
  case (Inr d)
  define ap where "ap = applyGameStateChanges g0 d fa (mathRandom sv 0)"
  obtain fa' where fa': "calculateFinalAttributes (baseAttributes (fst ap))
      (selectedCustomizations (fst ap)) sc = Inr fa'"
    using assms [of d] unfolding ap_def by blast
  have cm: "callModels sv sc act g0 fa =
      (case narrate sv act sc (snd ap) (fst ap) fa' of
         Inl message \<Rightarrow> (fst ap, dmUnavailable @ message)
       | Inr reply \<Rightarrow>
           (case parseDmChanges sv (narrativeOf reply) (fst ap) fa' of
              Inl message \<Rightarrow> (fst ap, dmUnavailable @ message)
            | Inr dmChanges \<Rightarrow>
                (fst (applyGameStateChanges (fst ap) dmChanges fa' (mathRandom sv 1)),
                 narrativeOf reply)))"
    using Inr fa' by (simp add: callModels_cases Let_def ap_def [symmetric])
  have "(\<exists>m. narrate sv act sc (snd ap) (fst ap) fa' = Inl m
                     \<and> snd (callModels sv sc act g0 fa) = dmUnavailable @ m)
               \<or> (\<exists>reply. narrate sv act sc (snd ap) (fst ap) fa' = Inr reply
                     \<and> ((\<exists>m. parseDmChanges sv (narrativeOf reply) (fst ap) fa' = Inl m
                              \<and> snd (callModels sv sc act g0 fa) = dmUnavailable @ m)
                        \<or> (\<exists>dm. parseDmChanges sv (narrativeOf reply) (fst ap) fa' = Inr dm
                              \<and> snd (callModels sv sc act g0 fa) = narrativeOf reply)))"
    unfolding cm by (auto split: sum.splits)
  with Inr fa' ap_def show ?thesis by blast
qed

text \<open>
  The turn when the preconditions hold, and what a returned state says about the call.
\<close>

lemma handleUserAction_ok:
  assumes "getUser sv = Some uid" "\<not> selectError sv" "db sid = Some row" "user_id row = uid"
    and "find (\<lambda>s. id_s s = scenario_id row) cat = Some sc"
    and "startAttributes row sc = Inr fa"
  shows "handleUserAction sv cat db sid act =
    (let r = callModels sv sc act (turnStart sv row act) fa;
         gs3 = (fst r)\<lparr>dialogueHistory := dialogueHistory (state row) @
                 [\<lparr>role = User, text_d = act, timestamp = dateNow sv 0\<rparr>,
                  \<lparr>role = Dm, text_d = snd r, timestamp = dateNow sv 1\<rparr>]\<rparr>
     in if updateError sv then \<lparr>outcome = Inl SaveFailed, stored = db, memory = Some gs3\<rparr>
        else \<lparr>outcome = Inr gs3,
              stored = db(sid \<mapsto> row\<lparr>state := gs3, updated_at := dateNow sv 2\<rparr>),
              memory = Some gs3\<rparr>)"
proof -
  have h: "dialogueHistory (fst (callModels sv sc act (turnStart sv row act) fa)) =
        dialogueHistory (state row) @ [\<lparr>role = User, text_d = act, timestamp = dateNow sv 0\<rparr>]"
    by (simp add: callModels_history turnStart_def)
  show ?thesis
    using assms h
    by (simp add: handleUserAction_def Let_def split_def turnStart_def [symmetric]
          startAttributes_def)
qed

lemma handleUserAction_returns:
  assumes "outcome (handleUserAction sv cat db sid act) = Inr gs'"
  shows "\<exists>uid row sc fa. getUser sv = Some uid \<and> \<not> selectError sv \<and> db sid = Some row
     \<and> user_id row = uid \<and> find (\<lambda>s. id_s s = scenario_id row) cat = Some sc
     \<and> startAttributes row sc = Inr fa \<and> \<not> updateError sv"
  using assms
  by (auto simp: handleUserAction_def Let_def split_def startAttributes_def
           split: option.splits if_splits sum.splits)

section \<open>Properties of character creation\<close>

text \<open>
  The two initialisation loops of the form, as maps.
\<close>

lemma map_of_foldl_const:
  "map_of (foldl (\<lambda>m (k, d). AList.update k c m) acc xs) a =
     (if a \<in> fst ` set xs then Some c else map_of acc a)"
  by (induction xs arbitrary: acc) (auto simp: update_conv')

lemma map_of_foldl_first:
  "distinct (map fst xs) \<Longrightarrow>
   map_of (foldl (\<lambda>initialCustoms (categoryKey, category).
                case content category of
                  [] \<Rightarrow> initialCustoms
                | (firstOptionKey, x) # rest \<Rightarrow>
                    if firstOptionKey \<noteq> []
                    then AList.update categoryKey firstOptionKey initialCustoms
                    else initialCustoms) acc xs) c =
     (case map_of xs c of None \<Rightarrow> map_of acc c
      | Some category \<Rightarrow> (case firstOption category of None \<Rightarrow> map_of acc c | Some k \<Rightarrow> Some k))"
proof (induction xs arbitrary: acc)
  case Nil
  show ?case by simp
next
  case (Cons p xs)
  obtain k cat where p: "p = (k, cat)" by (cases p) auto
  have nk: "map_of xs k = None"
    using Cons.prems by (simp add: p map_of_eq_None_iff)
  from Cons.prems have d: "distinct (map fst xs)" by simp
  show ?case
    unfolding p
    by (cases "content cat")
       (auto simp: Cons.IH [OF d] firstOption_def update_conv' nk split: option.splits list.splits)
qed

section \<open>Evaluation of the examples\<close>

lemmas demo_defs = demoServices_def intentDown_def narratorDown_def extractionDown_def
  demoGames_def demoRow_def demoState_def demoScenario_def sellSword_def findPotions_def
  emptyChanges_def

lemmas eval_defs = handleUserAction_def callModels_def calculateFinalAttributes_def
  applyGameStateChanges_def itemsBlock_def attributesBlock_def skillsBlock_def
  locationBlock_def flagsBlock_def checkBlock_def applyItemChange_def applySkillChange_def
  applyAttributeChange_def splice1_def addSelection_def addBonus_def orElse_def Let_def
  narrativeOf_def getProp_def setProp_def plusNumber_def objectPrototypeKeys_def

lemma demo_preconditions:
  "demoGames ''g1'' = Some demoRow" "user_id demoRow = ''u1''"
  "find (\<lambda>s. id_s s = scenario_id demoRow) [demoScenario] = Some demoScenario"
  "startAttributes demoRow demoScenario = Inr [(''Strength'', Num 5)]"
  by (simp_all add: demoGames_def demoRow_def demoScenario_def demoState_def
        startAttributes_def calculateFinalAttributes_def)

lemma demo_after_intent:
  "fst (applyGameStateChanges (turnStart sv demoRow ''sell'') sellSword fa u) =
     demoState\<lparr>inventory := [], dialogueHistory :=
       [\<lparr>role = Dm, text_d = ''Welcome.'', timestamp = ''t0''\<rparr>,
        \<lparr>role = User, text_d = ''sell'', timestamp = dateNow sv 0\<rparr>]\<rparr>"
  by (simp add: applyGameStateChanges_state listOf_def turnStart_def demoRow_def demoState_def
        sellSword_def emptyChanges_def applyItemChange_Cons)

lemma demoForm_value:
  "demoForm = \<lparr>user_f = Some ''u1'',
     baseAttributeValues = [(''Strength'', 15), (''Agility'', 5)], remainingPoints = 0,
     selectedCustomizations_f = [(''role'', ''warrior'')],
     selectedSkills = [\<lparr>skillName = ''stealth'', level = Some 1, description = Some ''hide''\<rparr>],
     gameName = ''Ann'', error_f = None\<rparr>"
  by (simp add: demoForm_def handleSkillToggle_def handleAttributeChange_def initForm_def
        emptyForm_def demoScenario_def eval_nat_numeral orElse_def Let_def
        BASE_ATTRIBUTE_VALUE_def TOTAL_BONUS_POINTS_def MAX_STARTING_SKILLS_def)

lemma trim_Ann: "trim ''Ann'' = ''Ann''"
  by (simp add: trim_def isSpace_def)

section \<open>The claims\<close>

subsection \<open>C1: skill-check resolution\<close>

text \<open>
  C1 says that the attribute value of a check defaults to 0 if the attribute is absent from
  the effective attributes. The code reads \<open>finalAttributes[a] || 0\<close> on a plain object, so an
  absent attribute whose name is a member of \<open>Object.prototype\<close> is read as that member: with
  the effective attributes \<open>{Strength: 5}\<close>, the governing attribute \<open>constructor\<close>, the
  threshold 10 and the sample 0.7, the attribute is absent, the roll is 15 and 15 + 0 reaches
  the threshold, and the check is recorded as failed, with a value that is not a number.
\<close>

theorem skill_check_inherited_name:
  "map_of [(''Strength'', Num 5)] ''constructor'' = None
   \<and> rollD20 (7 / 10) = 15
   \<and> (15 :: int) + 0 \<ge> 10
   \<and> snd (applyGameStateChanges demoState
        (emptyChanges\<lparr>requiresDiceRoll := Some True, relevantAttribute := Some ''constructor'',
           difficultyClass := Some 10\<rparr>) [(''Strength'', Num 5)] (7 / 10)) =
      [CheckNote ''constructor'' 10 15 NotNumber False]"
  by (simp add: emptyChanges_def rollD20_def applyGameStateChanges_def itemsBlock_def
        attributesBlock_def skillsBlock_def locationBlock_def flagsBlock_def checkBlock_def
        attributeOr0_def getProp_def objectPrototypeKeys_def skillCheckSuccess_def)

subsection \<open>C2: the inventory never holds a non-positive quantity\<close>

text \<open>
  C2. If every quantity of the inventory is positive, it is so after one call of the applier
  and after any sequence of calls. The inventory after a call is the item loop run over
  the delta's item changes, and one item change does this: when \<open>e\<close> is the first entry
  with the item's name, the change is added to its quantity and the entry is removed when
  the sum is \<open>\<le> 0\<close>; when no entry has the name, a positive change appends a new
  entry and any other change leaves the inventory as it is. Inventory \<open>[{sword, 1}]\<close>
  with the change \<open>{sword, -1}\<close> becomes \<open>[]\<close>.
\<close>

theorem inventory_never_nonpositive:
  "(inventoryPositive (inventory gs) \<longrightarrow>
      inventoryPositive (inventory (fst (applyGameStateChanges gs ch fa u))) \<and>
      inventoryPositive (inventory (applySequence gs steps)))
   \<and> inventory (fst (applyGameStateChanges gs ch fa u)) =
       foldl applyItemChange (inventory gs) (listOf (itemChanges ch))
   \<and> (item e = item_c c \<and> item_c c \<notin> item ` set pre \<longrightarrow>
       applyItemChange (pre @ e # post) c =
         (if quantity e + quantityChange c \<le> 0 then pre @ post
          else pre @ e\<lparr>quantity := quantity e + quantityChange c\<rparr> # post))
   \<and> (item_c c \<notin> item ` set es \<and> quantityChange c > 0 \<longrightarrow>
       applyItemChange es c = es @ [\<lparr>item = item_c c, quantity = quantityChange c\<rparr>])
   \<and> (item_c c \<notin> item ` set es \<and> quantityChange c \<le> 0 \<longrightarrow> applyItemChange es c = es)
   \<and> inventory (fst (applyGameStateChanges
         (gs\<lparr>inventory := [\<lparr>item = ''sword'', quantity = 1\<rparr>]\<rparr>)
         (emptyChanges\<lparr>itemChanges := Some [\<lparr>item_c = ''sword'', quantityChange = -1\<rparr>]\<rparr>)
         fa u)) = []"
proof -
  have a: "inventoryPositive (inventory gs) \<longrightarrow>
      inventoryPositive (inventory (fst (applyGameStateChanges gs ch fa u)))"
    by (simp add: applyGameStateChanges_state foldl_applyItemChange_positive)
  have b: "inventoryPositive (inventory gs) \<longrightarrow>
      inventoryPositive (inventory (applySequence gs steps))"
    by (simp add: applySequence_positive)
  have c: "inventory (fst (applyGameStateChanges gs ch fa u)) =
       foldl applyItemChange (inventory gs) (listOf (itemChanges ch))"
    by (simp add: applyGameStateChanges_state)
  have d: "item e = item_c c \<and> item_c c \<notin> item ` set pre \<longrightarrow>
       applyItemChange (pre @ e # post) c =
         (if quantity e + quantityChange c \<le> 0 then pre @ post
          else pre @ e\<lparr>quantity := quantity e + quantityChange c\<rparr> # post)"
    using applyItemChange_found [of e c pre post] by blast
  have e: "item_c c \<notin> item ` set es \<and> quantityChange c > 0 \<longrightarrow>
       applyItemChange es c = es @ [\<lparr>item = item_c c, quantity = quantityChange c\<rparr>]"
    using applyItemChange_missing [of c es] by simp
  have f: "item_c c \<notin> item ` set es \<and> quantityChange c \<le> 0 \<longrightarrow> applyItemChange es c = es"
    using applyItemChange_missing [of c es] by simp
  have g: "inventory (fst (applyGameStateChanges
         (gs\<lparr>inventory := [\<lparr>item = ''sword'', quantity = 1\<rparr>]\<rparr>)
         (emptyChanges\<lparr>itemChanges := Some [\<lparr>item_c = ''sword'', quantityChange = -1\<rparr>]\<rparr>)
         fa u)) = []"
    by (simp add: applyGameStateChanges_state listOf_def emptyChanges_def applyItemChange_Cons)
  from a b c d e f g show ?thesis by blast
qed

text \<open>
  C2, witness: from \<open>[{sword, 1}]\<close>, selling the sword and then finding two potions
  gives \<open>[{potion, 2}]\<close>; a change of an existing and of a missing item.
\<close>

theorem inventory_never_nonpositive_witness:
  "inventoryPositive (inventory demoState)
   \<and> inventory (applySequence demoState [(sellSword, [], 0), (findPotions, [], 0)]) =
       [\<lparr>item = ''potion'', quantity = 2\<rparr>]
   \<and> inventoryPositive (inventory (applySequence demoState [(sellSword, [], 0), (findPotions, [], 0)]))
   \<and> applyItemChange [\<lparr>item = ''sword'', quantity = 1\<rparr>, \<lparr>item = ''rope'', quantity = 3\<rparr>]
        \<lparr>item_c = ''rope'', quantityChange = - 1\<rparr> =
       [\<lparr>item = ''sword'', quantity = 1\<rparr>, \<lparr>item = ''rope'', quantity = 2\<rparr>]
   \<and> applyItemChange [\<lparr>item = ''sword'', quantity = 1\<rparr>] \<lparr>item_c = ''rope'', quantityChange = 0\<rparr> =
       [\<lparr>item = ''sword'', quantity = 1\<rparr>]"
  using inventory_never_nonpositive [where gs = demoState and ch = sellSword and fa = "[]"
      and u = 0 and steps = "[(sellSword, [], 0), (findPotions, [], 0)]"
      and e = "\<lparr>item = ''rope'', quantity = 3\<rparr>"
      and c = "\<lparr>item_c = ''rope'', quantityChange = - 1\<rparr>"
      and pre = "[\<lparr>item = ''sword'', quantity = 1\<rparr>]" and post = "[]"
      and es = "[\<lparr>item = ''sword'', quantity = 1\<rparr>]"]
    inventory_never_nonpositive [where gs = demoState and ch = sellSword and fa = "[]"
      and u = 0 and steps = "[]"
      and e = "\<lparr>item = ''rope'', quantity = 3\<rparr>"
      and c = "\<lparr>item_c = ''rope'', quantityChange = 0\<rparr>"
      and pre = "[]" and post = "[]"
      and es = "[\<lparr>item = ''sword'', quantity = 1\<rparr>]"]
  by (simp add: demo_defs eval_defs inventoryPositive_def)

subsection \<open>C3: skill names stay unique\<close>



subsection \<open>C4: the attribute resolver\<close>

text \<open>
  C4 says that a selection whose category key is absent from the scenario is silently
  skipped, and that a bonus for an attribute that is not in the base map creates the entry.
  The code tests \<open>playerCustomizations[categoryKey]\<close> and \<open>finalAttrs[attr]\<close> on plain
  objects, so an absent key that names a member of \<open>Object.prototype\<close> is found: with the
  selection \<open>{constructor: x}\<close> on a scenario without that category the resolver throws a
  \<open>TypeError\<close> instead of returning the base attributes, and the bonus \<open>{toString: +2}\<close> on
  a base map without that attribute stores a value that is not a number instead of 2.
\<close>

theorem resolver_inherited_name:
  "map_of (playerCustomizations demoScenario) ''constructor'' = None
   \<and> calculateFinalAttributes [(''Strength'', Num 5), (''Agility'', Num 5)]
        [(''constructor'', ''x'')] demoScenario = Inl (TypeError ''x'')
   \<and> map_of [(''Strength'', Num 5)] ''toString'' = None
   \<and> addBonus [(''Strength'', Num 5)] (''toString'', 2) =
        [(''Strength'', Num 5), (''toString'', NotNumber)]"
  by (simp add: calculateFinalAttributes_def addSelection_def addBonus_def demoScenario_def
        getProp_def setProp_def objectPrototypeKeys_def)

subsection \<open>C5: a failing narration call does not abort the turn\<close>

text \<open>
  C5. Let the caller be logged in and own the session, let the scenario be in the catalog,
  let the effective attributes resolve at the start of the turn and let the store accept the
  final write. If the intent call fails, the turn returns the loaded state with the player's
  entry and a placeholder narrator entry appended and saves it. If the intent call returns a
  delta \<open>d\<close>, the effective attributes resolve again, and if then the narrative call fails,
  or the narrative call succeeds and the extraction call fails, the turn returns the state
  after \<open>d\<close> was applied, with the same two entries appended, and saves it: what was applied
  stays applied. The placeholder is the fixed text followed by the error's message.
\<close>

theorem narration_failure_keeps_turn:
  assumes "getUser sv = Some uid" and "\<not> selectError sv" and "db sid = Some row"
    and "user_id row = uid"
    and "find (\<lambda>s. id_s s = scenario_id row) cat = Some sc"
    and "\<not> updateError sv"
    and "startAttributes row sc = Inr fa"
    and "ap = applyGameStateChanges (turnStart sv row act) d fa (mathRandom sv 0)"
  shows "(parseAction sv act sc (turnStart sv row act) fa = Inl message \<longrightarrow>
           handleUserAction sv cat db sid act =
             saved sv db sid row (degraded sv row act (state row) message))
    \<and> (\<exists>fa'. calculateFinalAttributes (baseAttributes (fst ap))
                 (selectedCustomizations (fst ap)) sc = Inr fa'
         \<and> (parseAction sv act sc (turnStart sv row act) fa = Inr d
              \<and> narrate sv act sc (snd ap) (fst ap) fa' = Inl message \<longrightarrow>
                handleUserAction sv cat db sid act =
                  saved sv db sid row (degraded sv row act (fst ap) message))
         \<and> (parseAction sv act sc (turnStart sv row act) fa = Inr d
              \<and> narrate sv act sc (snd ap) (fst ap) fa' = Inr reply
              \<and> parseDmChanges sv (narrativeOf reply) (fst ap) fa' = Inl message \<longrightarrow>
                handleUserAction sv cat db sid act =
                  saved sv db sid row (degraded sv row act (fst ap) message)))"
proof -
  note ok = handleUserAction_ok [where db = db and sid = sid and act = act, OF assms(1-5) assms(7)]
  obtain fa' where fa': "calculateFinalAttributes (baseAttributes (fst ap))
      (selectedCustomizations (fst ap)) sc = Inr fa'"
    using resolves_after_intent [OF assms(7), of sv act d "mathRandom sv 0"] assms(8) by auto
  have A: "parseAction sv act sc (turnStart sv row act) fa = Inl message \<longrightarrow>
           handleUserAction sv cat db sid act =
             saved sv db sid row (degraded sv row act (state row) message)"
    using assms(6)
    by (simp add: ok callModels_cases saved_def degraded_def turnStart_def Let_def)
  have B: "parseAction sv act sc (turnStart sv row act) fa = Inr d
         \<and> narrate sv act sc (snd ap) (fst ap) fa' = Inl message \<longrightarrow>
           handleUserAction sv cat db sid act =
             saved sv db sid row (degraded sv row act (fst ap) message)"
    using assms(6) assms(8) [symmetric] fa'
    by (simp add: ok callModels_cases saved_def degraded_def Let_def)
  have C: "parseAction sv act sc (turnStart sv row act) fa = Inr d
         \<and> narrate sv act sc (snd ap) (fst ap) fa' = Inr reply
         \<and> parseDmChanges sv (narrativeOf reply) (fst ap) fa' = Inl message \<longrightarrow>
           handleUserAction sv cat db sid act =
             saved sv db sid row (degraded sv row act (fst ap) message)"
    using assms(6) assms(8) [symmetric] fa'
    by (simp add: ok callModels_cases saved_def degraded_def Let_def)
  from A B C fa' show ?thesis by blast
qed

text \<open>
  C5, witness: the sword is sold by the intent delta; the turn is saved with the placeholder
  when the first, the second or the third call fails.
\<close>

theorem narration_failure_keeps_turn_witness:
  "getUser narratorDown = Some ''u1'' \<and> \<not> selectError narratorDown
   \<and> demoGames ''g1'' = Some demoRow \<and> \<not> updateError narratorDown
   \<and> startAttributes demoRow demoScenario = Inr [(''Strength'', Num 5)]
   \<and> outcome (handleUserAction intentDown [demoScenario] demoGames ''g1'' ''sell'') =
       Inr (demoState\<lparr>dialogueHistory :=
         [\<lparr>role = Dm, text_d = ''Welcome.'', timestamp = ''t0''\<rparr>,
          \<lparr>role = User, text_d = ''sell'', timestamp = ''t1''\<rparr>,
          \<lparr>role = Dm, text_d = dmUnavailable @ ''down'', timestamp = ''t1''\<rparr>]\<rparr>)
   \<and> outcome (handleUserAction narratorDown [demoScenario] demoGames ''g1'' ''sell'') =
       Inr (demoState\<lparr>inventory := [], dialogueHistory :=
         [\<lparr>role = Dm, text_d = ''Welcome.'', timestamp = ''t0''\<rparr>,
          \<lparr>role = User, text_d = ''sell'', timestamp = ''t1''\<rparr>,
          \<lparr>role = Dm, text_d = dmUnavailable @ ''timeout'', timestamp = ''t1''\<rparr>]\<rparr>)
   \<and> outcome (handleUserAction extractionDown [demoScenario] demoGames ''g1'' ''sell'') =
       Inr (demoState\<lparr>inventory := [], dialogueHistory :=
         [\<lparr>role = Dm, text_d = ''Welcome.'', timestamp = ''t0''\<rparr>,
          \<lparr>role = User, text_d = ''sell'', timestamp = ''t1''\<rparr>,
          \<lparr>role = Dm, text_d = dmUnavailable @ ''bad json'', timestamp = ''t1''\<rparr>]\<rparr>)
   \<and> map_option state (stored (handleUserAction narratorDown [demoScenario] demoGames
         ''g1'' ''sell'') ''g1'') =
       Some (demoState\<lparr>inventory := [], dialogueHistory :=
         [\<lparr>role = Dm, text_d = ''Welcome.'', timestamp = ''t0''\<rparr>,
          \<lparr>role = User, text_d = ''sell'', timestamp = ''t1''\<rparr>,
          \<lparr>role = Dm, text_d = dmUnavailable @ ''timeout'', timestamp = ''t1''\<rparr>]\<rparr>)"
proof -
  have sv: "getUser intentDown = Some ''u1''" "\<not> selectError intentDown"
      "\<not> updateError intentDown"
      "getUser narratorDown = Some ''u1''" "\<not> selectError narratorDown"
      "\<not> updateError narratorDown"
      "getUser extractionDown = Some ''u1''" "\<not> selectError extractionDown"
      "\<not> updateError extractionDown"
    by (simp_all add: intentDown_def narratorDown_def extractionDown_def demoServices_def)
  have calls: "parseAction intentDown act sc g fa = Inl ''down''"
      "parseAction narratorDown act sc g fa = Inr sellSword"
      "narrate narratorDown act sc ctx g fa = Inl ''timeout''"
      "parseAction extractionDown act sc g fa = Inr sellSword"
      "narrate extractionDown act sc ctx g fa = Inr (Some ''Sold.'')"
      "parseDmChanges extractionDown n g fa = Inl ''bad json''" for act sc g fa ctx n
    by (simp_all add: intentDown_def narratorDown_def extractionDown_def demoServices_def)
  have A: "handleUserAction intentDown [demoScenario] demoGames ''g1'' ''sell'' =
      saved intentDown demoGames ''g1'' demoRow
        (degraded intentDown demoRow ''sell'' (state demoRow) ''down'')"
    using narration_failure_keeps_turn [where d = sellSword and message = "''down''"
        and reply = None and act = "''sell''" and db = demoGames and sid = "''g1''"
        and row = demoRow and cat = "[demoScenario]" and sc = demoScenario and uid = "''u1''"
        and sv = intentDown,
        OF sv(1) sv(2) demo_preconditions(1-3) sv(3) demo_preconditions(4) refl]
    by (simp add: calls)
  have B: "handleUserAction narratorDown [demoScenario] demoGames ''g1'' ''sell'' =
      saved narratorDown demoGames ''g1'' demoRow
        (degraded narratorDown demoRow ''sell''
           (fst (applyGameStateChanges (turnStart narratorDown demoRow ''sell'') sellSword
              [(''Strength'', Num 5)] (mathRandom narratorDown 0))) ''timeout'')"
    using narration_failure_keeps_turn [where d = sellSword and message = "''timeout''"
        and reply = None and act = "''sell''" and db = demoGames and sid = "''g1''"
        and row = demoRow and cat = "[demoScenario]" and sc = demoScenario and uid = "''u1''"
        and sv = narratorDown,
        OF sv(4) sv(5) demo_preconditions(1-3) sv(6) demo_preconditions(4) refl]
    by (auto simp: calls)
  have C: "handleUserAction extractionDown [demoScenario] demoGames ''g1'' ''sell'' =
      saved extractionDown demoGames ''g1'' demoRow
        (degraded extractionDown demoRow ''sell''
           (fst (applyGameStateChanges (turnStart extractionDown demoRow ''sell'') sellSword
              [(''Strength'', Num 5)] (mathRandom extractionDown 0))) ''bad json'')"
    using narration_failure_keeps_turn [where d = sellSword and message = "''bad json''"
        and reply = "Some ''Sold.''" and act = "''sell''" and db = demoGames and sid = "''g1''"
        and row = demoRow and cat = "[demoScenario]" and sc = demoScenario and uid = "''u1''"
        and sv = extractionDown,
        OF sv(7) sv(8) demo_preconditions(1-3) sv(9) demo_preconditions(4) refl]
    by (auto simp: calls)
  have t: "dateNow intentDown n = ''t1''" "dateNow narratorDown n = ''t1''"
      "dateNow extractionDown n = ''t1''" for n
    by (simp_all add: intentDown_def narratorDown_def extractionDown_def demoServices_def)
  show ?thesis
    unfolding A B C demo_after_intent
    using demo_preconditions(4)
    by (simp add: sv demo_preconditions(1-3) saved_def degraded_def t demoRow_def demoState_def)
qed

subsection \<open>C6: a violated precondition fails the call before any change\<close>

text \<open>
  C6. The caller is not logged in, or the session cannot be loaded, or the caller does not
  own it, or its scenario is not in the catalog, exactly when the call throws one of the
  four precondition errors; and then the table of games is unchanged and the in-memory
  state is either not bound or still the loaded state (no history entry, no delta).
\<close>

theorem precondition_failure_changes_nothing:
  "(getUser sv = None \<or> selectError sv \<or> db sid = None
      \<or> (\<exists>row. db sid = Some row \<and>
            (getUser sv \<noteq> Some (user_id row)
             \<or> find (\<lambda>s. id_s s = scenario_id row) cat = None)))
   = (outcome (handleUserAction sv cat db sid act) \<in>
        {Inl NotLoggedIn, Inl SessionNotFound, Inl NoAccess, Inl ScenarioNotFound})
   \<and> (outcome (handleUserAction sv cat db sid act) \<in>
        {Inl NotLoggedIn, Inl SessionNotFound, Inl NoAccess, Inl ScenarioNotFound} \<longrightarrow>
       stored (handleUserAction sv cat db sid act) = db
       \<and> (memory (handleUserAction sv cat db sid act) = None
          \<or> (\<exists>row. db sid = Some row
                \<and> memory (handleUserAction sv cat db sid act) = Some (state row))))"
  by (auto simp: handleUserAction_def Let_def split_def
           split: option.splits if_splits sum.splits)

text \<open>
  C6, witness: one call for each of the four violations.
\<close>

theorem precondition_failure_changes_nothing_witness:
  "outcome (handleUserAction (demoServices\<lparr>getUser := None\<rparr>) [demoScenario] demoGames
      ''g1'' ''sell'') = Inl NotLoggedIn
   \<and> stored (handleUserAction (demoServices\<lparr>getUser := None\<rparr>) [demoScenario] demoGames
      ''g1'' ''sell'') = demoGames
   \<and> outcome (handleUserAction demoServices [demoScenario] demoGames ''g2'' ''sell'') =
       Inl SessionNotFound
   \<and> stored (handleUserAction demoServices [demoScenario] demoGames ''g2'' ''sell'') = demoGames
   \<and> outcome (handleUserAction (demoServices\<lparr>getUser := Some ''u2''\<rparr>) [demoScenario]
      demoGames ''g1'' ''sell'') = Inl NoAccess
   \<and> stored (handleUserAction (demoServices\<lparr>getUser := Some ''u2''\<rparr>) [demoScenario]
      demoGames ''g1'' ''sell'') = demoGames
   \<and> outcome (handleUserAction demoServices [] demoGames ''g1'' ''sell'') = Inl ScenarioNotFound
   \<and> stored (handleUserAction demoServices [] demoGames ''g1'' ''sell'') = demoGames
   \<and> memory (handleUserAction demoServices [] demoGames ''g1'' ''sell'') = Some demoState"
  using precondition_failure_changes_nothing [where sv = "demoServices\<lparr>getUser := None\<rparr>"
      and cat = "[demoScenario]" and db = demoGames and sid = "''g1''" and act = "''sell''"]
    precondition_failure_changes_nothing [where sv = demoServices
      and cat = "[demoScenario]" and db = demoGames and sid = "''g2''" and act = "''sell''"]
    precondition_failure_changes_nothing [where sv = "demoServices\<lparr>getUser := Some ''u2''\<rparr>"
      and cat = "[demoScenario]" and db = demoGames and sid = "''g1''" and act = "''sell''"]
    precondition_failure_changes_nothing [where sv = demoServices
      and cat = "[]" and db = demoGames and sid = "''g1''" and act = "''sell''"]
  by (simp add: demo_defs handleUserAction_def)

subsection \<open>C7: the dialogue history after a turn\<close>

text \<open>
  C7, as stated, fails: a turn that fails before the narrator entry is produced does not
  leave a history longer by one. An unauthenticated call fails with nothing appended, and a
  turn whose first narration call fails ends with two new entries.
\<close>

theorem history_growth_counterexample:
  "map_option (length \<circ> dialogueHistory \<circ> state) (demoGames ''g1'') = Some 1
   \<and> outcome (handleUserAction (demoServices\<lparr>getUser := None\<rparr>) [demoScenario] demoGames
        ''g1'' ''sell'') = Inl NotLoggedIn
   \<and> memory (handleUserAction (demoServices\<lparr>getUser := None\<rparr>) [demoScenario] demoGames
        ''g1'' ''sell'') = None
   \<and> map_option (length \<circ> dialogueHistory \<circ> state)
        (stored (handleUserAction (demoServices\<lparr>getUser := None\<rparr>) [demoScenario] demoGames
           ''g1'' ''sell'') ''g1'') = Some 1
   \<and> map_option (length \<circ> dialogueHistory \<circ> state)
        (stored (handleUserAction intentDown [demoScenario] demoGames ''g1'' ''sell'') ''g1'') =
      Some 3"
  by (simp add: demo_defs eval_defs)

text \<open>
  C7, amended, for the server action \<open>handleUserAction\<close>. A turn that returns a state
  returns the prior history, unchanged and in order, followed by the player's entry with the
  submitted text and one narrator entry, and stores that state. The narrator entry's text is
  the generated narrative when the three narration calls succeed, and the placeholder with
  the error's message when the first, the second or the third of them fails. A turn that
  throws leaves the stored session as it was. The history held by the action is at every
  exit the prior history or the prior history with both entries.
\<close>

theorem history_after_turn:
  "(outcome (handleUserAction sv cat db sid act) = Inr gs' \<longrightarrow>
      (\<exists>row sc fa t. db sid = Some row
         \<and> find (\<lambda>s. id_s s = scenario_id row) cat = Some sc
         \<and> startAttributes row sc = Inr fa
         \<and> dialogueHistory gs' = dialogueHistory (state row) @
              [\<lparr>role = User, text_d = act, timestamp = dateNow sv 0\<rparr>,
               \<lparr>role = Dm, text_d = t, timestamp = dateNow sv 1\<rparr>]
         \<and> stored (handleUserAction sv cat db sid act) =
              db(sid \<mapsto> row\<lparr>state := gs', updated_at := dateNow sv 2\<rparr>)
         \<and> ((\<exists>m. parseAction sv act sc (turnStart sv row act) fa = Inl m
                  \<and> t = dmUnavailable @ m)
            \<or> (\<exists>d ap fa'. parseAction sv act sc (turnStart sv row act) fa = Inr d
                  \<and> ap = applyGameStateChanges (turnStart sv row act) d fa (mathRandom sv 0)
                  \<and> calculateFinalAttributes (baseAttributes (fst ap))
                       (selectedCustomizations (fst ap)) sc = Inr fa'
                  \<and> ((\<exists>m. narrate sv act sc (snd ap) (fst ap) fa' = Inl m
                           \<and> t = dmUnavailable @ m)
                     \<or> (\<exists>reply. narrate sv act sc (snd ap) (fst ap) fa' = Inr reply
                           \<and> ((\<exists>m. parseDmChanges sv (narrativeOf reply) (fst ap) fa' = Inl m
                                    \<and> t = dmUnavailable @ m)
                              \<or> (\<exists>dm. parseDmChanges sv (narrativeOf reply) (fst ap) fa' = Inr dm
                                    \<and> t = narrativeOf reply))))))))
   \<and> (outcome (handleUserAction sv cat db sid act) = Inl e \<longrightarrow>
        stored (handleUserAction sv cat db sid act) = db)
   \<and> (memory (handleUserAction sv cat db sid act) = Some m \<longrightarrow>
        (\<exists>row. db sid = Some row
           \<and> (m = state row
              \<or> (\<exists>t. dialogueHistory m = dialogueHistory (state row) @
                    [\<lparr>role = User, text_d = act, timestamp = dateNow sv 0\<rparr>,
                     \<lparr>role = Dm, text_d = t, timestamp = dateNow sv 1\<rparr>]))))"
proof -
  have a: "outcome (handleUserAction sv cat db sid act) = Inr gs' \<longrightarrow>
      (\<exists>row sc fa t. db sid = Some row
         \<and> find (\<lambda>s. id_s s = scenario_id row) cat = Some sc
         \<and> startAttributes row sc = Inr fa
         \<and> dialogueHistory gs' = dialogueHistory (state row) @
              [\<lparr>role = User, text_d = act, timestamp = dateNow sv 0\<rparr>,
               \<lparr>role = Dm, text_d = t, timestamp = dateNow sv 1\<rparr>]
         \<and> stored (handleUserAction sv cat db sid act) =
              db(sid \<mapsto> row\<lparr>state := gs', updated_at := dateNow sv 2\<rparr>)
         \<and> ((\<exists>m. parseAction sv act sc (turnStart sv row act) fa = Inl m
                  \<and> t = dmUnavailable @ m)
            \<or> (\<exists>d ap fa'. parseAction sv act sc (turnStart sv row act) fa = Inr d
                  \<and> ap = applyGameStateChanges (turnStart sv row act) d fa (mathRandom sv 0)
                  \<and> calculateFinalAttributes (baseAttributes (fst ap))
                       (selectedCustomizations (fst ap)) sc = Inr fa'
                  \<and> ((\<exists>m. narrate sv act sc (snd ap) (fst ap) fa' = Inl m
                           \<and> t = dmUnavailable @ m)
                     \<or> (\<exists>reply. narrate sv act sc (snd ap) (fst ap) fa' = Inr reply
                           \<and> ((\<exists>m. parseDmChanges sv (narrativeOf reply) (fst ap) fa' = Inl m
                                    \<and> t = dmUnavailable @ m)
                              \<or> (\<exists>dm. parseDmChanges sv (narrativeOf reply) (fst ap) fa' = Inr dm
                                    \<and> t = narrativeOf reply)))))))"
  proof
    assume out: "outcome (handleUserAction sv cat db sid act) = Inr gs'"
    from handleUserAction_returns [OF out]
    obtain uid row sc fa where pre: "getUser sv = Some uid" "\<not> selectError sv"
        "db sid = Some row" "user_id row = uid"
        "find (\<lambda>s. id_s s = scenario_id row) cat = Some sc"
        "startAttributes row sc = Inr fa" and save: "\<not> updateError sv"
      by blast
    define r where "r = callModels sv sc act (turnStart sv row act) fa"
    note ok = handleUserAction_ok [where db = db and sid = sid and act = act, OF pre]
    have gs': "gs' = (fst r)\<lparr>dialogueHistory := dialogueHistory (state row) @
                 [\<lparr>role = User, text_d = act, timestamp = dateNow sv 0\<rparr>,
                  \<lparr>role = Dm, text_d = snd r, timestamp = dateNow sv 1\<rparr>]\<rparr>"
      using out save by (simp add: ok Let_def r_def)
    have st: "stored (handleUserAction sv cat db sid act) =
              db(sid \<mapsto> row\<lparr>state := gs', updated_at := dateNow sv 2\<rparr>)"
      using save gs' by (simp add: ok Let_def r_def)
    have hist: "dialogueHistory gs' = dialogueHistory (state row) @
              [\<lparr>role = User, text_d = act, timestamp = dateNow sv 0\<rparr>,
               \<lparr>role = Dm, text_d = snd r, timestamp = dateNow sv 1\<rparr>]"
      by (simp add: gs')
    have res: "\<exists>fa'. calculateFinalAttributes
             (baseAttributes (fst (applyGameStateChanges (turnStart sv row act) d fa (mathRandom sv 0))))
             (selectedCustomizations (fst (applyGameStateChanges (turnStart sv row act) d fa (mathRandom sv 0))))
             sc = Inr fa'" for d
      by (rule resolves_after_intent [OF pre(6)])
    note cmt = callModels_text [of "turnStart sv row act" fa sv sc act, OF res, folded r_def]
    from pre(3) pre(5) pre(6) hist st cmt show "\<exists>row sc fa t. db sid = Some row
         \<and> find (\<lambda>s. id_s s = scenario_id row) cat = Some sc
         \<and> startAttributes row sc = Inr fa
         \<and> dialogueHistory gs' = dialogueHistory (state row) @
              [\<lparr>role = User, text_d = act, timestamp = dateNow sv 0\<rparr>,
               \<lparr>role = Dm, text_d = t, timestamp = dateNow sv 1\<rparr>]
         \<and> stored (handleUserAction sv cat db sid act) =
              db(sid \<mapsto> row\<lparr>state := gs', updated_at := dateNow sv 2\<rparr>)
         \<and> ((\<exists>m. parseAction sv act sc (turnStart sv row act) fa = Inl m
                  \<and> t = dmUnavailable @ m)
            \<or> (\<exists>d ap fa'. parseAction sv act sc (turnStart sv row act) fa = Inr d
                  \<and> ap = applyGameStateChanges (turnStart sv row act) d fa (mathRandom sv 0)
                  \<and> calculateFinalAttributes (baseAttributes (fst ap))
                       (selectedCustomizations (fst ap)) sc = Inr fa'
                  \<and> ((\<exists>m. narrate sv act sc (snd ap) (fst ap) fa' = Inl m
                           \<and> t = dmUnavailable @ m)
                     \<or> (\<exists>reply. narrate sv act sc (snd ap) (fst ap) fa' = Inr reply
                           \<and> ((\<exists>m. parseDmChanges sv (narrativeOf reply) (fst ap) fa' = Inl m
                                    \<and> t = dmUnavailable @ m)
                              \<or> (\<exists>dm. parseDmChanges sv (narrativeOf reply) (fst ap) fa' = Inr dm
                                    \<and> t = narrativeOf reply))))))"
      by blast
  qed
  have b: "outcome (handleUserAction sv cat db sid act) = Inl e \<longrightarrow>
        stored (handleUserAction sv cat db sid act) = db"
    by (auto simp: handleUserAction_def Let_def split_def
             split: option.splits if_splits sum.splits)
  have c: "memory (handleUserAction sv cat db sid act) = Some m \<longrightarrow>
        (\<exists>row. db sid = Some row
           \<and> (m = state row
              \<or> (\<exists>t. dialogueHistory m = dialogueHistory (state row) @
                    [\<lparr>role = User, text_d = act, timestamp = dateNow sv 0\<rparr>,
                     \<lparr>role = Dm, text_d = t, timestamp = dateNow sv 1\<rparr>])))"
    by (auto simp: handleUserAction_def Let_def split_def callModels_history
             split: option.splits if_splits sum.splits)
  from a b c show ?thesis by blast
qed

text \<open>
  C7, witness: a full turn, and a turn whose final save fails.
\<close>

theorem history_after_turn_witness:
  "outcome (handleUserAction demoServices [demoScenario] demoGames ''g1'' ''sell'') =
     Inr (demoState\<lparr>inventory := [\<lparr>item = ''potion'', quantity = 2\<rparr>],
          currentLocation := ''market'',
          dialogueHistory := dialogueHistory demoState @
             [\<lparr>role = User, text_d = ''sell'', timestamp = ''t1''\<rparr>,
              \<lparr>role = Dm, text_d = ''Sold.'', timestamp = ''t1''\<rparr>]\<rparr>)
   \<and> narrativeOf (Some ''Sold.'') = ''Sold.''
   \<and> outcome (handleUserAction (demoServices\<lparr>updateError := True\<rparr>) [demoScenario] demoGames
        ''g1'' ''sell'') = Inl SaveFailed
   \<and> stored (handleUserAction (demoServices\<lparr>updateError := True\<rparr>) [demoScenario] demoGames
        ''g1'' ''sell'') = demoGames
   \<and> map_option (length \<circ> dialogueHistory)
        (memory (handleUserAction (demoServices\<lparr>updateError := True\<rparr>) [demoScenario]
           demoGames ''g1'' ''sell'')) = Some 3"
  using history_after_turn [where sv = demoServices and cat = "[demoScenario]"
      and db = demoGames and sid = "''g1''" and act = "''sell''"
      and gs' = "demoState\<lparr>inventory := [\<lparr>item = ''potion'', quantity = 2\<rparr>],
          currentLocation := ''market'',
          dialogueHistory := [\<lparr>role = Dm, text_d = ''Welcome.'', timestamp = ''t0''\<rparr>,
                              \<lparr>role = User, text_d = ''sell'', timestamp = ''t1''\<rparr>,
                              \<lparr>role = Dm, text_d = ''Sold.'', timestamp = ''t1''\<rparr>]\<rparr>"
      and e = SaveFailed and m = demoState]
    history_after_turn [where sv = "demoServices\<lparr>updateError := True\<rparr>"
      and cat = "[demoScenario]" and db = demoGames and sid = "''g1''" and act = "''sell''"
      and gs' = demoState and e = SaveFailed and m = demoState]
  by (simp add: demo_defs eval_defs)

subsection \<open>C8: the game state at character creation\<close>

text \<open>
  C8, as stated, fails: creation is refused while allocation points remain or no skill is
  chosen, so the form in its initial state creates nothing, and a created state holds the
  player's allocation and skills.
\<close>

theorem created_state_counterexample:
  "map_sum id baseAttributes (handleStartGame demoScenario ''t0'' demoForm) =
     Inr [(''Strength'', Num 15), (''Agility'', Num 5)]
   \<and> map_sum id playerSkills (handleStartGame demoScenario ''t0'' demoForm) =
     Inr [\<lparr>skillName = ''stealth'', level = Some 1, description = Some ''hide''\<rparr>]
   \<and> handleStartGame demoScenario ''t0''
       (initForm demoScenario (emptyForm\<lparr>user_f := Some ''u1'', gameName := ''Ann''\<rparr>)) =
     Inl (PointsUnbalanced 10)"
  by (simp add: handleStartGame_def demoForm_value trim_Ann initForm_def emptyForm_def
        TOTAL_BONUS_POINTS_def numbers_def)

text \<open>
  C8, amended. A created game state has the base attributes and customizations of the
  creation form, the non-empty list of skills chosen in the form, an empty inventory, an
  empty story-flag map and a history of exactly one introductory narrator entry, and it is
  only created when no allocation point remains. The form starts with every scenario
  attribute at the fixed starting value, each category at its first option (when it has a
  non-empty one), no skill and all allocation points left.
\<close>

theorem created_game_state:
  "(handleStartGame sc now f = Inr gs \<longrightarrow>
      remainingPoints f = 0 \<and> selectedSkills f \<noteq> []
      \<and> baseAttributes gs = numbers (baseAttributeValues f)
      \<and> selectedCustomizations gs = selectedCustomizations_f f
      \<and> playerSkills gs = selectedSkills f
      \<and> inventory gs = [] \<and> gameProgression gs = []
      \<and> dialogueHistory gs = [\<lparr>role = Dm, text_d = initialDmText sc f, timestamp = now\<rparr>])
   \<and> map_of (baseAttributeValues (initForm sc f)) a =
       (if a \<in> fst ` set (attributes sc) then Some BASE_ATTRIBUTE_VALUE else None)
   \<and> (distinct (map fst (playerCustomizations sc)) \<longrightarrow>
       map_of (selectedCustomizations_f (initForm sc f)) c =
         (case map_of (playerCustomizations sc) c of None \<Rightarrow> None
          | Some category \<Rightarrow> firstOption category))
   \<and> selectedSkills (initForm sc f) = []
   \<and> remainingPoints (initForm sc f) = TOTAL_BONUS_POINTS"
proof -
  have a: "handleStartGame sc now f = Inr gs \<longrightarrow>
      remainingPoints f = 0 \<and> selectedSkills f \<noteq> []
      \<and> baseAttributes gs = numbers (baseAttributeValues f)
      \<and> selectedCustomizations gs = selectedCustomizations_f f
      \<and> playerSkills gs = selectedSkills f
      \<and> inventory gs = [] \<and> gameProgression gs = []
      \<and> dialogueHistory gs = [\<lparr>role = Dm, text_d = initialDmText sc f, timestamp = now\<rparr>]"
    by (auto simp: handleStartGame_def split: if_splits)
  have b: "map_of (baseAttributeValues (initForm sc f)) a =
       (if a \<in> fst ` set (attributes sc) then Some BASE_ATTRIBUTE_VALUE else None)"
    by (simp add: initForm_def map_of_foldl_const)
  have c: "distinct (map fst (playerCustomizations sc)) \<longrightarrow>
       map_of (selectedCustomizations_f (initForm sc f)) c =
         (case map_of (playerCustomizations sc) c of None \<Rightarrow> None
          | Some category \<Rightarrow> firstOption category)"
    by (auto simp: initForm_def map_of_foldl_first split: option.splits)
  have d: "selectedSkills (initForm sc f) = []
     \<and> remainingPoints (initForm sc f) = TOTAL_BONUS_POINTS"
    by (simp add: initForm_def)
  from a b c d show ?thesis by blast
qed

text \<open>
  C8, witness: the form after ten points on Strength and the choice of stealth.
\<close>

theorem created_game_state_witness:
  "map_sum id inventory (handleStartGame demoScenario ''t0'' demoForm) = Inr []
   \<and> map_sum id gameProgression (handleStartGame demoScenario ''t0'' demoForm) = Inr []
   \<and> map_sum id dialogueHistory (handleStartGame demoScenario ''t0'' demoForm) =
       Inr [\<lparr>role = Dm, text_d = initialDmText demoScenario demoForm, timestamp = ''t0''\<rparr>]
   \<and> distinct (map fst (playerCustomizations demoScenario))
   \<and> baseAttributeValues (initForm demoScenario emptyForm) =
       [(''Strength'', 5), (''Agility'', 5)]
   \<and> selectedCustomizations_f (initForm demoScenario emptyForm) = [(''role'', ''warrior'')]"
  using created_game_state [where sc = demoScenario and now = "''t0''" and f = demoForm
      and gs = "\<lparr>scenarioId = ''s1'', scenarioName = ''Demo'',
         baseAttributes = [(''Strength'', Num 15), (''Agility'', Num 5)],
         selectedCustomizations = [(''role'', ''warrior'')], currentLocation = ''gate'',
         playerCharacterName = Some ''Ann'', inventory = [],
         playerSkills = [\<lparr>skillName = ''stealth'', level = Some 1, description = Some ''hide''\<rparr>],
         gameProgression = [],
         dialogueHistory =
           [\<lparr>role = Dm, text_d = initialDmText demoScenario demoForm, timestamp = ''t0''\<rparr>]\<rparr>"
      and a = "''Strength''" and c = "''role''"]
  by (simp add: handleStartGame_def demoForm_value trim_Ann initForm_def emptyForm_def
        demoScenario_def BASE_ATTRIBUTE_VALUE_def TOTAL_BONUS_POINTS_def numbers_def)

subsection \<open>C9: the location update\<close>

text \<open>
  C9, as stated, fails for the empty string: the field is present, and the location stays
  what it was.
\<close>

theorem location_empty_string_counterexample:
  "locationUpdate (emptyChanges\<lparr>locationUpdate := Some []\<rparr>) = Some []
   \<and> currentLocation (fst (applyGameStateChanges demoState
        (emptyChanges\<lparr>locationUpdate := Some []\<rparr>) [] 0)) = ''cave''
   \<and> ''cave'' \<noteq> []"
  by (simp add: applyGameStateChanges_state demoState_def emptyChanges_def)

text \<open>
  C9, amended. A delta whose location update is present and not the empty string sets the
  current location to exactly that value; a delta without the field, or with the empty
  string, leaves the current location unchanged.
\<close>

theorem location_update:
  "(locationUpdate ch = Some l \<and> l \<noteq> [] \<longrightarrow>
      currentLocation (fst (applyGameStateChanges gs ch fa u)) = l)
   \<and> (locationUpdate ch = None \<or> locationUpdate ch = Some [] \<longrightarrow>
      currentLocation (fst (applyGameStateChanges gs ch fa u)) = currentLocation gs)"
  by (auto simp: applyGameStateChanges_state)

text \<open>
  C9, witness: a delta that moves the player to the market and one without the field.
\<close>

theorem location_update_witness:
  "currentLocation (fst (applyGameStateChanges demoState findPotions [] 0)) = ''market''
   \<and> currentLocation (fst (applyGameStateChanges demoState sellSword [] 0)) = ''cave''"
  using location_update [where ch = findPotions and l = "''market''" and gs = demoState
      and fa = "[]" and u = 0]
    location_update [where ch = sellSword and l = "''market''" and gs = demoState
      and fa = "[]" and u = 0]
  by (simp add: demo_defs)

subsection \<open>C10: improve and deteriorate without a value\<close>

text \<open>
  C10. A skill change of type improve or deteriorate without a value returns the skill list
  unchanged, whether or not the skill is in it, and a delta that holds only such a change
  leaves the whole state unchanged.
\<close>

theorem valueless_improve_is_noop:
  "(type_c c = Improve \<or> type_c c = Deteriorate) \<and> value_c c = None \<longrightarrow>
     applySkillChange ss c = ss
     \<and> fst (applyGameStateChanges gs (emptyChanges\<lparr>skillChanges := Some [c]\<rparr>) fa u) = gs"
  by (simp add: applySkillChange_no_value applyGameStateChanges_state listOf_def emptyChanges_def)

text \<open>
  C10, witness: stealth at level 3 stays at level 3.
\<close>

theorem valueless_improve_is_noop_witness:
  "applySkillChange [\<lparr>skillName = ''stealth'', level = Some 3, description = None\<rparr>]
        \<lparr>skillName_c = ''stealth'', type_c = Improve, value_c = None\<rparr> =
      [\<lparr>skillName = ''stealth'', level = Some 3, description = None\<rparr>]
   \<and> applySkillChange [\<lparr>skillName = ''stealth'', level = Some 3, description = None\<rparr>]
        \<lparr>skillName_c = ''stealth'', type_c = Deteriorate, value_c = None\<rparr> =
      [\<lparr>skillName = ''stealth'', level = Some 3, description = None\<rparr>]"
  using valueless_improve_is_noop [where
      c = "\<lparr>skillName_c = ''stealth'', type_c = Improve, value_c = None\<rparr>"
      and ss = "[\<lparr>skillName = ''stealth'', level = Some 3, description = None\<rparr>]"
      and gs = demoState and fa = "[]" and u = 0]
    valueless_improve_is_noop [where
      c = "\<lparr>skillName_c = ''stealth'', type_c = Deteriorate, value_c = None\<rparr>"
      and ss = "[\<lparr>skillName = ''stealth'', level = Some 3, description = None\<rparr>]"
      and gs = demoState and fa = "[]" and u = 0]
  by simp

end
